theory Spec2Isabelle
  imports Main "HOL-Library.Word"
begin

section \<open>Values of the program\<close>

text \<open>
  The handler \<^verbatim>\<open>src/mcp_server/handlers/github.py\<close> is embedded function by
  function. File contents are Python \<^verbatim>\<open>bytes\<close>; a decoded text (a Python
  \<^verbatim>\<open>str\<close> obtained from \<^verbatim>\<open>bytes.decode\<close>) is the list of its code
  points. Paths, branch names, commit messages and object hashes are kept as byte
  strings. The name of the project and the name and description of the repository, which
  the handler puts into a file content or filters by character class, are Python
  \<^verbatim>\<open>str\<close> values too: lists of code points.
\<close>

type_synonym byte = "8 word"
type_synonym bytes = "byte list"
type_synonym pystr = "nat list"

text \<open>
  Exceptions are values. Only \<^verbatim>\<open>GithubException\<close> carries a \<^verbatim>\<open>status\<close>
  attribute; every exception has its \<^verbatim>\<open>str(e)\<close>.
\<close>

datatype exn =
    GithubException int string
  | RemoteError string
  | UnicodeDecodeError string
  | OSError string

fun status :: "exn \<Rightarrow> int option" where
  "status (GithubException st msg) = Some st"
| "status (RemoteError msg) = None"
| "status (UnicodeDecodeError msg) = None"
| "status (OSError msg) = None"

fun str :: "exn \<Rightarrow> string" where
  "str (GithubException st msg) = msg"
| "str (RemoteError msg) = msg"
| "str (UnicodeDecodeError msg) = msg"
| "str (OSError msg) = msg"

section \<open>The content classifier\<close>

text \<open>
  \<^verbatim>\<open>bytes.decode('utf-8')\<close> is the strict decoder: it accepts exactly the
  well-formed sequences (no overlong form, no surrogate, nothing above U+10FFFF, no
  truncated sequence) and raises \<^verbatim>\<open>UnicodeDecodeError\<close> otherwise.
\<close>

definition cont :: "byte \<Rightarrow> bool" where
  "cont b = (0x80 \<le> unat b \<and> unat b \<le> 0xBF)"

definition low6 :: "byte \<Rightarrow> nat" where
  "low6 b = unat b - 0x80"

text \<open>The admissible range of the second byte depends on the lead byte.\<close>

definition second_lo :: "byte \<Rightarrow> nat" where
  "second_lo b0 = (if unat b0 = 0xE0 then 0xA0 else if unat b0 = 0xF0 then 0x90 else 0x80)"

definition second_hi :: "byte \<Rightarrow> nat" where
  "second_hi b0 = (if unat b0 = 0xED then 0x9F else if unat b0 = 0xF4 then 0x8F else 0xBF)"

fun utf8_points :: "bytes \<Rightarrow> pystr option" where
  "utf8_points [] = Some []"
| "utf8_points (b0 # bs) =
     (if unat b0 < 0x80 then map_option ((#) (unat b0)) (utf8_points bs)
      else if 0xC2 \<le> unat b0 \<and> unat b0 \<le> 0xDF then
        (case bs of
           b1 # r \<Rightarrow>
             if cont b1
             then map_option ((#) ((unat b0 - 0xC0) * 64 + low6 b1)) (utf8_points r)
             else None
         | _ \<Rightarrow> None)
      else if 0xE0 \<le> unat b0 \<and> unat b0 \<le> 0xEF then
        (case bs of
           b1 # b2 # r \<Rightarrow>
             if second_lo b0 \<le> unat b1 \<and> unat b1 \<le> second_hi b0 \<and> cont b2
             then map_option
                    ((#) ((unat b0 - 0xE0) * 4096 + low6 b1 * 64 + low6 b2))
                    (utf8_points r)
             else None
         | _ \<Rightarrow> None)
      else if 0xF0 \<le> unat b0 \<and> unat b0 \<le> 0xF4 then
        (case bs of
           b1 # b2 # b3 # r \<Rightarrow>
             if second_lo b0 \<le> unat b1 \<and> unat b1 \<le> second_hi b0 \<and> cont b2 \<and> cont b3
             then map_option
                    ((#) ((unat b0 - 0xF0) * 262144 + low6 b1 * 4096
                          + low6 b2 * 64 + low6 b3))
                    (utf8_points r)
             else None
         | _ \<Rightarrow> None)
      else None)"

definition decode :: "bytes \<Rightarrow> exn + pystr" where
  "decode content =
     (case utf8_points content of
        Some t \<Rightarrow> Inr t
      | None \<Rightarrow> Inl (UnicodeDecodeError ''invalid utf-8''))"

text \<open>
  \<^verbatim>\<open>_is_binary\<close>: a NUL byte decides at once; otherwise the content is decoded
  and only \<^verbatim>\<open>UnicodeDecodeError\<close> is caught.
\<close>

definition is_binary :: "bytes \<Rightarrow> exn + bool" where
  "is_binary content =
     (if 0 \<in> set content then Inr True
      else (case decode content of
              Inr t \<Rightarrow> Inr False
            | Inl (UnicodeDecodeError msg) \<Rightarrow> Inr True
            | Inl e \<Rightarrow> Inl e))"

section \<open>Strings\<close>

text \<open>\<^verbatim>\<open>needle in hay\<close> on strings.\<close>

fun starts_with :: "string \<Rightarrow> string \<Rightarrow> bool" where
  "starts_with [] hay = True"
| "starts_with (n # ns) [] = False"
| "starts_with (n # ns) (h # hs) = (n = h \<and> starts_with ns hs)"

fun contains :: "string \<Rightarrow> string \<Rightarrow> bool" where
  "contains needle [] = (needle = [])"
| "contains needle (h # hs) = (starts_with needle (h # hs) \<or> contains needle hs)"

text \<open>
  \<^verbatim>\<open>str.lower()\<close>, on the ASCII letters. No character outside ASCII lowers to a
  letter of \<^verbatim>\<open>readme.md\<close>, the only string a lowered path is compared with.
\<close>

definition lower_char :: "char \<Rightarrow> char" where
  "lower_char c =
     (case map_of (zip ''ABCDEFGHIJKLMNOPQRSTUVWXYZ'' ''abcdefghijklmnopqrstuvwxyz'') c of
        Some l \<Rightarrow> l
      | None \<Rightarrow> c)"

definition lower :: "string \<Rightarrow> string" where
  "lower s = map lower_char s"

text \<open>\<^verbatim>\<open>base64.b64encode(content).decode('utf-8')\<close>.\<close>

definition b64_alphabet :: string where
  "b64_alphabet =
     ''ABCDEFGHIJKLMNOPQRSTUVWXYZabcdefghijklmnopqrstuvwxyz0123456789+/''"

definition b64_char :: "nat \<Rightarrow> char" where
  "b64_char n = b64_alphabet ! (n mod 64)"

fun b64encode :: "bytes \<Rightarrow> string" where
  "b64encode [] = []"
| "b64encode [a] =
     [b64_char (unat a div 4), b64_char ((unat a mod 4) * 16), CHR ''='', CHR ''='']"
| "b64encode [a, b] =
     [b64_char (unat a div 4), b64_char ((unat a mod 4) * 16 + unat b div 16),
      b64_char ((unat b mod 16) * 4), CHR ''='']"
| "b64encode (a # b # c # r) =
     [b64_char (unat a div 4), b64_char ((unat a mod 4) * 16 + unat b div 16),
      b64_char ((unat b mod 16) * 4 + unat c div 64), b64_char (unat c mod 64)]
     @ b64encode r"

section \<open>The file collector\<close>

text \<open>
  The project directory as \<^verbatim>\<open>os.walk\<close> reads it: a file has a name and the size
  \<^verbatim>\<open>stat()\<close> reports (\<open>None\<close> when \<^verbatim>\<open>stat()\<close> raises, as on a dangling
  link); a directory has a name and its entries in listing order.
\<close>

datatype entry = File string "nat option" | Dir string "entry list"

definition EXCLUDE_PATTERNS :: "string list" where
  "EXCLUDE_PATTERNS =
     [''.git'', ''node_modules'', ''__pycache__'', ''venv'', ''.DS_Store'', ''.mypy_cache'']"

definition MAX_FILE_SIZE :: nat where
  "MAX_FILE_SIZE = 5 * 1024 * 1024"

definition join :: "string \<Rightarrow> string \<Rightarrow> string" where
  "join dir name = (if dir = [] then name else dir @ ''/'' @ name)"

text \<open>
  The body of the \<^verbatim>\<open>for file in files\<close> loop over one directory: \<open>root\<close> is
  the directory's path, \<open>rel\<close> the same path relative to the project.
\<close>

fun scan_files :: "string \<Rightarrow> string \<Rightarrow> entry list \<Rightarrow> exn + (string \<times> string) list" where
  "scan_files root rel [] = Inr []"
| "scan_files root rel (Dir d ch # es) = scan_files root rel es"
| "scan_files root rel (File file st_size # es) =
     (if starts_with ''.'' file \<or> file \<in> set EXCLUDE_PATTERNS then scan_files root rel es
      else (case st_size of
              None \<Rightarrow> Inl (OSError ''stat'')
            | Some sz \<Rightarrow>
                if sz > MAX_FILE_SIZE then scan_files root rel es
                else (case scan_files root rel es of
                        Inl e \<Rightarrow> Inl e
                      | Inr found \<Rightarrow> Inr ((join root file, join rel file) # found))))"

text \<open>
  \<^verbatim>\<open>os.walk\<close>, top down: the files of a directory, then each directory left in
  \<^verbatim>\<open>dirs\<close> after the pruning, in order.
\<close>

fun walk :: "string \<Rightarrow> string \<Rightarrow> entry list \<Rightarrow> exn + (string \<times> string) list"
  and walk_dirs :: "string \<Rightarrow> string \<Rightarrow> entry list \<Rightarrow> exn + (string \<times> string) list"
where
  "walk root rel es =
     (case scan_files root rel es of
        Inl e \<Rightarrow> Inl e
      | Inr here \<Rightarrow>
          (case walk_dirs root rel es of
             Inl e \<Rightarrow> Inl e
           | Inr below \<Rightarrow> Inr (here @ below)))"
| "walk_dirs root rel [] = Inr []"
| "walk_dirs root rel (File file st_size # es) = walk_dirs root rel es"
| "walk_dirs root rel (Dir d ch # es) =
     (if d \<notin> set EXCLUDE_PATTERNS \<and> \<not> starts_with ''.'' d
      then (case walk (join root d) (join rel d) ch of
              Inl e \<Rightarrow> Inl e
            | Inr first \<Rightarrow>
                (case walk_dirs root rel es of
                   Inl e \<Rightarrow> Inl e
                 | Inr rest \<Rightarrow> Inr (first @ rest)))
      else walk_dirs root rel es)"

record project =
  project_path :: string
  project_name :: pystr
  entries :: "entry list"

definition collect :: "project \<Rightarrow> exn + (string \<times> string) list" where
  "collect p = walk (project_path p) [] (entries p)"

section \<open>The remote repository\<close>

text \<open>
  The objects the remote API returns, with the attributes the handler reads:
  \<^verbatim>\<open>ref.object.sha\<close>, \<^verbatim>\<open>commit.sha\<close> and \<^verbatim>\<open>commit.tree.sha\<close>,
  \<^verbatim>\<open>tree.sha\<close>, \<^verbatim>\<open>blob.sha\<close>, \<^verbatim>\<open>contents.sha\<close>.
\<close>

datatype git_ref = GitRef (ref_path: string) (object_sha: string)
datatype git_commit = GitCommit (commit_sha: string) (tree_sha: string)
datatype git_tree = GitTree (tree_id: string)
datatype git_blob = GitBlob (blob_sha: string)
datatype content_file = ContentFile (content_sha: string)

datatype tree_element =
  InputGitTreeElement (el_path: string) (el_mode: string) (el_type: string) (el_sha: string)

text \<open>Every remote call the handler can issue, with its arguments.\<close>

datatype call =
    GetRepo pystr
  | CreateRepo pystr pystr bool
  | GetGitRef string
  | GetGitCommit string
  | GetGitTree string
  | CreateGitRef string string
  | CreateFile string string pystr string
  | UpdateFile string string pystr string string
  | GetContents string string
  | CreateGitBlob string string
  | CreateGitTree "tree_element list" git_tree
  | CreateGitCommit string git_tree "git_commit list"
  | EditRef git_ref string

text \<open>
  The repository object: its attributes and its methods. The remote is any
  deterministic machine over a state \<open>'r\<close>; a method takes the state, answers with
  an object or raises, and leaves a new state. Nothing is assumed about the answers.
\<close>

record 'r repo =
  default_branch :: string
  html_url :: string
  api_get_git_ref :: "string \<Rightarrow> 'r \<Rightarrow> (exn + git_ref) \<times> 'r"
  api_get_git_commit :: "string \<Rightarrow> 'r \<Rightarrow> (exn + git_commit) \<times> 'r"
  api_get_git_tree :: "string \<Rightarrow> 'r \<Rightarrow> (exn + git_tree) \<times> 'r"
  api_create_git_ref :: "string \<Rightarrow> string \<Rightarrow> 'r \<Rightarrow> (exn + git_ref) \<times> 'r"
  api_create_file :: "string \<Rightarrow> string \<Rightarrow> pystr \<Rightarrow> string \<Rightarrow> 'r \<Rightarrow> (exn + unit) \<times> 'r"
  api_update_file ::
    "string \<Rightarrow> string \<Rightarrow> pystr \<Rightarrow> string \<Rightarrow> string \<Rightarrow> 'r \<Rightarrow> (exn + unit) \<times> 'r"
  api_get_contents :: "string \<Rightarrow> string \<Rightarrow> 'r \<Rightarrow> (exn + content_file) \<times> 'r"
  api_create_git_blob :: "string \<Rightarrow> string \<Rightarrow> 'r \<Rightarrow> (exn + git_blob) \<times> 'r"
  api_create_git_tree ::
    "tree_element list \<Rightarrow> git_tree \<Rightarrow> 'r \<Rightarrow> (exn + git_tree) \<times> 'r"
  api_create_git_commit ::
    "string \<Rightarrow> git_tree \<Rightarrow> git_commit list \<Rightarrow> 'r \<Rightarrow> (exn + git_commit) \<times> 'r"
  api_edit_ref :: "git_ref \<Rightarrow> string \<Rightarrow> 'r \<Rightarrow> (exn + unit) \<times> 'r"

record 'r client =
  api_get_repo :: "pystr \<Rightarrow> 'r \<Rightarrow> (exn + 'r repo) \<times> 'r"
  api_create_repo :: "pystr \<Rightarrow> pystr \<Rightarrow> bool \<Rightarrow> 'r \<Rightarrow> (exn + 'r repo) \<times> 'r"

section \<open>Computations: remote state, the calls issued, exceptions\<close>

text \<open>
  A computation runs on the remote state paired with the list of the calls issued so
  far, and ends with a value or with a raised exception.
\<close>

type_synonym 'r world = "'r \<times> call list"
type_synonym ('r, 'a) io = "'r world \<Rightarrow> (exn + 'a) \<times> 'r world"

definition ret :: "'a \<Rightarrow> ('r, 'a) io" where
  "ret a w = (Inr a, w)"

definition raise :: "exn \<Rightarrow> ('r, 'a) io" where
  "raise e w = (Inl e, w)"

definition lift :: "exn + 'a \<Rightarrow> ('r, 'a) io" where
  "lift r w = (r, w)"

definition and_then :: "('r, 'a) io \<Rightarrow> ('a \<Rightarrow> ('r, 'b) io) \<Rightarrow> ('r, 'b) io" where
  "and_then m f w = (case m w of (Inl e, w') \<Rightarrow> (Inl e, w') | (Inr a, w') \<Rightarrow> f a w')"

definition try_except :: "('r, 'a) io \<Rightarrow> (exn \<Rightarrow> ('r, 'a) io) \<Rightarrow> ('r, 'a) io" where
  "try_except m h w = (case m w of (Inl e, w') \<Rightarrow> h e w' | (Inr a, w') \<Rightarrow> (Inr a, w'))"

definition remote :: "call \<Rightarrow> ('r \<Rightarrow> (exn + 'a) \<times> 'r) \<Rightarrow> ('r, 'a) io" where
  "remote c f w = (case f (fst w) of (r, s') \<Rightarrow> (r, (s', snd w @ [c])))"

definition get_git_ref :: "'r repo \<Rightarrow> string \<Rightarrow> ('r, git_ref) io" where
  "get_git_ref repo name = remote (GetGitRef name) (api_get_git_ref repo name)"

definition get_git_commit :: "'r repo \<Rightarrow> string \<Rightarrow> ('r, git_commit) io" where
  "get_git_commit repo sha = remote (GetGitCommit sha) (api_get_git_commit repo sha)"

definition get_git_tree :: "'r repo \<Rightarrow> string \<Rightarrow> ('r, git_tree) io" where
  "get_git_tree repo sha = remote (GetGitTree sha) (api_get_git_tree repo sha)"

definition create_git_ref :: "'r repo \<Rightarrow> string \<Rightarrow> string \<Rightarrow> ('r, git_ref) io" where
  "create_git_ref repo name sha = remote (CreateGitRef name sha) (api_create_git_ref repo name sha)"

definition create_file ::
  "'r repo \<Rightarrow> string \<Rightarrow> string \<Rightarrow> pystr \<Rightarrow> string \<Rightarrow> ('r, unit) io" where
  "create_file repo path msg content branch =
     remote (CreateFile path msg content branch) (api_create_file repo path msg content branch)"

definition update_file ::
  "'r repo \<Rightarrow> string \<Rightarrow> string \<Rightarrow> pystr \<Rightarrow> string \<Rightarrow> string \<Rightarrow> ('r, unit) io" where
  "update_file repo path msg content sha branch =
     remote (UpdateFile path msg content sha branch)
       (api_update_file repo path msg content sha branch)"

definition get_contents :: "'r repo \<Rightarrow> string \<Rightarrow> string \<Rightarrow> ('r, content_file) io" where
  "get_contents repo path branch = remote (GetContents path branch) (api_get_contents repo path branch)"

definition create_git_blob :: "'r repo \<Rightarrow> string \<Rightarrow> string \<Rightarrow> ('r, git_blob) io" where
  "create_git_blob repo content encoding =
     remote (CreateGitBlob content encoding) (api_create_git_blob repo content encoding)"

definition create_git_tree ::
  "'r repo \<Rightarrow> tree_element list \<Rightarrow> git_tree \<Rightarrow> ('r, git_tree) io" where
  "create_git_tree repo elements base =
     remote (CreateGitTree elements base) (api_create_git_tree repo elements base)"

definition create_git_commit ::
  "'r repo \<Rightarrow> string \<Rightarrow> git_tree \<Rightarrow> git_commit list \<Rightarrow> ('r, git_commit) io" where
  "create_git_commit repo msg tree parents =
     remote (CreateGitCommit msg tree parents) (api_create_git_commit repo msg tree parents)"

definition edit_ref :: "'r repo \<Rightarrow> git_ref \<Rightarrow> string \<Rightarrow> ('r, unit) io" where
  "edit_ref repo ref sha = remote (EditRef ref sha) (api_edit_ref repo ref sha)"

text \<open>
  \<^verbatim>\<open>open(file_path, 'rb')\<close> and \<^verbatim>\<open>f.read()\<close>: the local files are a function
  from paths to contents, \<open>None\<close> where opening or reading raises.
\<close>

definition read_file :: "(string \<Rightarrow> bytes option) \<Rightarrow> string \<Rightarrow> ('r, bytes) io" where
  "read_file disk file_path =
     lift (case disk file_path of None \<Rightarrow> Inl (OSError ''open'') | Some content \<Rightarrow> Inr content)"

section \<open>The branch bootstrap of \<^verbatim>\<open>_upload_files\<close>\<close>

text \<open>
  The three calls that resolve a ref to its commit and its tree (lines 90 to 92, 113
  to 115 and 165 to 167 of the handler).
\<close>

definition resolve ::
  "'r repo \<Rightarrow> string \<Rightarrow> ('r, git_ref \<times> git_commit \<times> git_tree) io" where
  "resolve repo name =
     and_then (get_git_ref repo name) (\<lambda>ref.
     and_then (get_git_commit repo (object_sha ref)) (\<lambda>latest_commit.
     and_then (get_git_tree repo (tree_sha latest_commit)) (\<lambda>base_tree.
     ret (ref, latest_commit, base_tree))))"

text \<open>
  The test of the handler for an empty repository:
  \<^verbatim>\<open>hasattr(e, 'status') and e.status == 409 or 'Git Repository is empty' in str(e)\<close>.
\<close>

definition is_empty_repo :: "exn \<Rightarrow> bool" where
  "is_empty_repo e = (status e = Some 409 \<or> contains ''Git Repository is empty'' (str e))"

text \<open>\<^verbatim>\<open>if readme_content:\<close> is false for \<^verbatim>\<open>None\<close> and for the empty string.\<close>

definition truthy :: "pystr option \<Rightarrow> bool" where
  "truthy readme_content = (case readme_content of None \<Rightarrow> False | Some t \<Rightarrow> t \<noteq> [])"

definition find_readme :: "(string \<times> string) list \<Rightarrow> (string \<times> string) option" where
  "find_readme files_to_upload = find (\<lambda>(fp, rp). lower rp = ''readme.md'') files_to_upload"

text \<open>
  Lines 97 to 110: the initial commit on an empty repository. The value is the list
  of the files still to upload. \<open>name\<close> is \<^verbatim>\<open>project_path.name\<close>, and the
  placeholder is the two characters \<^verbatim>\<open>#\<close> and space followed by it.
\<close>

definition initial_commit ::
  "'r repo \<Rightarrow> (string \<Rightarrow> bytes option) \<Rightarrow> pystr \<Rightarrow> pystr option \<Rightarrow> string
     \<Rightarrow> (string \<times> string) list \<Rightarrow> ('r, (string \<times> string) list) io" where
  "initial_commit repo disk name readme_content branch files_to_upload =
     (if truthy readme_content
      then and_then
             (create_file repo ''README.md'' ''Initial commit: README.md''
                (the readme_content) branch)
             (\<lambda>_. ret files_to_upload)
      else (case find_readme files_to_upload of
              Some (file_path, rel_path) \<Rightarrow>
                and_then (read_file disk file_path) (\<lambda>content.
                and_then (lift (decode content)) (\<lambda>decoded.
                and_then
                  (create_file repo rel_path (''Initial commit: '' @ rel_path) decoded branch)
                  (\<lambda>_. ret (filter (\<lambda>t. t \<noteq> (file_path, rel_path)) files_to_upload))))
            | None \<Rightarrow>
                and_then
                  (create_file repo ''README.md'' ''Initial commit: README.md''
                     (map of_char ''# '' @ name) branch)
                  (\<lambda>_. ret files_to_upload)))"

text \<open>Lines 118 to 124: the branch is missing on a repository that has commits.\<close>

definition create_branch ::
  "'r repo \<Rightarrow> string \<Rightarrow> ('r, git_ref \<times> git_commit \<times> git_tree) io" where
  "create_branch repo branch =
     and_then
       (try_except (get_git_ref repo ''heads/main'')
          (\<lambda>_. get_git_ref repo (''heads/'' @ default_branch repo)))
       (\<lambda>master_ref.
     and_then (create_git_ref repo (''refs/heads/'' @ branch) (object_sha master_ref)) (\<lambda>ref.
     and_then (get_git_commit repo (object_sha master_ref)) (\<lambda>latest_commit.
     and_then (get_git_tree repo (tree_sha latest_commit)) (\<lambda>base_tree.
     ret (ref, latest_commit, base_tree)))))"

text \<open>Lines 89 to 124. An exception raised in a handler leaves the function.\<close>

definition ensure_branch ::
  "'r repo \<Rightarrow> (string \<Rightarrow> bytes option) \<Rightarrow> pystr \<Rightarrow> pystr option \<Rightarrow> string
     \<Rightarrow> (string \<times> string) list
     \<Rightarrow> ('r, (string \<times> string) list \<times> git_ref \<times> git_commit \<times> git_tree) io" where
  "ensure_branch repo disk name readme_content branch files_to_upload =
     try_except
       (and_then (resolve repo (''heads/'' @ branch)) (\<lambda>r. ret (files_to_upload, r)))
       (\<lambda>e. if is_empty_repo e
            then and_then
                   (initial_commit repo disk name readme_content branch files_to_upload)
                   (\<lambda>remaining.
                 and_then (resolve repo (''heads/'' @ branch)) (\<lambda>r. ret (remaining, r)))
            else and_then (create_branch repo branch) (\<lambda>r. ret (files_to_upload, r)))"

section \<open>The upload loop\<close>

text \<open>
  \<^verbatim>\<open>'404' in str(e) or 'Not Found' in str(e)\<close>, the test that turns a failed
  lookup or update into a create.
\<close>

definition is_not_found :: "exn \<Rightarrow> bool" where
  "is_not_found e = (contains ''404'' (str e) \<or> contains ''Not Found'' (str e))"

text \<open>Lines 144 to 153: one text file.\<close>

definition upload_text :: "'r repo \<Rightarrow> string \<Rightarrow> string \<Rightarrow> bytes \<Rightarrow> ('r, unit) io" where
  "upload_text repo branch rel_path content =
     try_except
       (and_then (get_contents repo rel_path branch) (\<lambda>contents.
        and_then (lift (decode content)) (\<lambda>decoded.
        update_file repo rel_path (''Update '' @ rel_path) decoded (content_sha contents) branch)))
       (\<lambda>e. if is_not_found e
            then and_then (lift (decode content)) (\<lambda>decoded.
                 create_file repo rel_path (''Add '' @ rel_path) decoded branch)
            else raise e)"

text \<open>
  Lines 133 to 155, the body of the \<^verbatim>\<open>try\<close> of one iteration, up to the
  increment of \<^verbatim>\<open>files_uploaded\<close>: it ends with the new list of tree elements, or
  raises.
\<close>

definition process_file ::
  "'r repo \<Rightarrow> (string \<Rightarrow> bytes option) \<Rightarrow> string \<Rightarrow> tree_element list
     \<Rightarrow> string \<times> string \<Rightarrow> ('r, tree_element list) io" where
  "process_file repo disk branch tree_elements f =
     (case f of (file_path, rel_path) \<Rightarrow>
        and_then (read_file disk file_path) (\<lambda>content.
        and_then (lift (is_binary content)) (\<lambda>is_bin.
          if is_bin
          then and_then (create_git_blob repo (b64encode content) ''base64'') (\<lambda>blob.
               ret (tree_elements
                    @ [InputGitTreeElement rel_path ''100644'' ''blob'' (blob_sha blob)]))
          else and_then (upload_text repo branch rel_path content) (\<lambda>_. ret tree_elements))))"

record counters =
  files_uploaded :: nat
  files_skipped :: nat

record loop_state = counters +
  tree_elements :: "tree_element list"

text \<open>
  One iteration of the loop of lines 131 to 159, with its \<^verbatim>\<open>except Exception\<close>.
\<close>

definition upload_step ::
  "'r repo \<Rightarrow> (string \<Rightarrow> bytes option) \<Rightarrow> string \<Rightarrow> loop_state \<Rightarrow> string \<times> string
     \<Rightarrow> 'r world \<Rightarrow> loop_state \<times> 'r world" where
  "upload_step repo disk branch st f w =
     (case process_file repo disk branch (tree_elements st) f w of
        (Inr staged, w') \<Rightarrow>
          (st\<lparr>files_uploaded := files_uploaded st + 1, tree_elements := staged\<rparr>, w')
      | (Inl e, w') \<Rightarrow> (st\<lparr>files_skipped := files_skipped st + 1\<rparr>, w'))"

fun upload_loop ::
  "'r repo \<Rightarrow> (string \<Rightarrow> bytes option) \<Rightarrow> string \<Rightarrow> loop_state \<Rightarrow> (string \<times> string) list
     \<Rightarrow> 'r world \<Rightarrow> loop_state \<times> 'r world" where
  "upload_loop repo disk branch st [] w = (st, w)"
| "upload_loop repo disk branch st (f # fs) w =
     (case upload_step repo disk branch st f w of
        (st', w') \<Rightarrow> upload_loop repo disk branch st' fs w')"

section \<open>The commit of the binary files and the result\<close>

text \<open>Lines 162 to 173.\<close>

definition commit_binary :: "'r repo \<Rightarrow> string \<Rightarrow> tree_element list \<Rightarrow> ('r, unit) io" where
  "commit_binary repo branch elements =
     (if elements \<noteq> []
      then try_except
             (and_then (resolve repo (''heads/'' @ branch)) (\<lambda>(ref, latest_commit, base_tree).
              and_then (create_git_tree repo elements base_tree) (\<lambda>new_tree.
              and_then
                (create_git_commit repo ''Add/update binary files'' new_tree [latest_commit])
                (\<lambda>new_commit.
              edit_ref repo ref (commit_sha new_commit)))))
             (\<lambda>e. ret ())
      else ret ())"

text \<open>Lines 126 to 178: the loop from fresh counters, the commit, the summary.\<close>

definition initial_state :: loop_state where
  "initial_state = \<lparr>files_uploaded = 0, files_skipped = 0, tree_elements = []\<rparr>"

definition sync ::
  "'r repo \<Rightarrow> (string \<Rightarrow> bytes option) \<Rightarrow> string \<Rightarrow> (string \<times> string) list
     \<Rightarrow> ('r, counters) io" where
  "sync repo disk branch files_to_upload w =
     (case upload_loop repo disk branch initial_state files_to_upload w of
        (st, w') \<Rightarrow>
          and_then (commit_binary repo branch (tree_elements st))
            (\<lambda>_. ret \<lparr>files_uploaded = files_uploaded st, files_skipped = files_skipped st\<rparr>)
            w')"

text \<open>Lines 88 to 178, from the collected files on.\<close>

definition upload_collected ::
  "'r repo \<Rightarrow> (string \<Rightarrow> bytes option) \<Rightarrow> pystr \<Rightarrow> pystr option \<Rightarrow> string
     \<Rightarrow> (string \<times> string) list \<Rightarrow> ('r, counters) io" where
  "upload_collected repo disk name readme_content branch files_to_upload =
     and_then (ensure_branch repo disk name readme_content branch files_to_upload)
       (\<lambda>(remaining, r). sync repo disk branch remaining)"

text \<open>\<^verbatim>\<open>_upload_files\<close>.\<close>

definition upload_files ::
  "'r repo \<Rightarrow> project \<Rightarrow> (string \<Rightarrow> bytes option) \<Rightarrow> pystr option \<Rightarrow> string
     \<Rightarrow> ('r, counters) io" where
  "upload_files repo p disk readme_content branch =
     and_then (lift (collect p))
       (upload_collected repo disk (project_name p) readme_content branch)"

section \<open>\<^verbatim>\<open>deploy_project\<close>\<close>

record project_info =
  info_name :: pystr
  info_description :: pystr

datatype deploy_result =
    Failed pystr
  | Succeeded string pystr string bool nat nat

fun success :: "deploy_result \<Rightarrow> bool" where
  "success (Failed msg) = False"
| "success (Succeeded url name branch private uploaded skipped) = True"

text \<open>
  Lines 32 and 33: spaces and underscores become hyphens, then only alphanumeric
  characters, hyphens and underscores are kept. \<^verbatim>\<open>str.isalnum\<close> on one character is
  decided by the Unicode character database, which is no part of the repository: it is
  the parameter \<open>isalnum\<close>, a predicate on code points.
\<close>

definition repo_name_of :: "(nat \<Rightarrow> bool) \<Rightarrow> pystr \<Rightarrow> pystr" where
  "repo_name_of isalnum name =
     filter (\<lambda>c. isalnum c \<or> c \<in> set (map of_char ''-_''))
       (map (\<lambda>c. if c = of_char (CHR '' '') \<or> c = of_char (CHR ''_'')
                 then of_char (CHR ''-'') else c) name)"

definition get_or_create_repo ::
  "'r client \<Rightarrow> pystr \<Rightarrow> pystr \<Rightarrow> bool \<Rightarrow> ('r, 'r repo option) io" where
  "get_or_create_repo cl repo_name description private =
     try_except
       (and_then (remote (GetRepo repo_name) (api_get_repo cl repo_name))
          (\<lambda>repo. ret (Some repo)))
       (\<lambda>_. try_except
              (and_then
                 (remote (CreateRepo repo_name description private)
                    (api_create_repo cl repo_name description private))
                 (\<lambda>repo. ret (Some repo)))
              (\<lambda>e. ret None))"

text \<open>
  \<open>analysis\<close> is what \<^verbatim>\<open>ProjectAnalyzer(project_path).analyze()\<close> gives: the
  project information, or an exception.
\<close>

definition deploy_project ::
  "(nat \<Rightarrow> bool) \<Rightarrow> 'r client \<Rightarrow> exn + project_info \<Rightarrow> project \<Rightarrow> (string \<Rightarrow> bytes option)
     \<Rightarrow> pystr option \<Rightarrow> string \<Rightarrow> bool \<Rightarrow> ('r, deploy_result) io" where
  "deploy_project isalnum cl analysis p disk readme_content branch private =
     and_then (lift analysis) (\<lambda>project_info.
     and_then
       (get_or_create_repo cl (repo_name_of isalnum (info_name project_info))
          (info_description project_info) private)
       (\<lambda>found.
          case found of
            None \<Rightarrow>
              ret (Failed (map of_char ''Failed to get or create repository: ''
                           @ repo_name_of isalnum (info_name project_info)))
          | Some repo \<Rightarrow>
              and_then (upload_files repo p disk readme_content branch) (\<lambda>result.
              ret (Succeeded (html_url repo) (repo_name_of isalnum (info_name project_info))
                     branch private (files_uploaded result) (files_skipped result)))))"

section \<open>A small remote, to run the handler on\<close>

text \<open>
  An in-memory remote with one working tree: the heads, the tree of every commit, the
  content hash of every path, the operations that are out of order (they raise a
  transport error), and a counter for fresh hashes. The theorems below hold for every
  remote; this one serves to run the handler on concrete inputs.
\<close>

record sim =
  heads :: "(string \<times> string) list"
  tree_of :: "(string \<times> string) list"
  blob_at :: "(string \<times> string) list"
  broken :: "string list"
  next_id :: nat

definition transport :: "exn" where
  "transport = RemoteError ''connection reset by peer''"

definition not_found :: "exn" where
  "not_found = GithubException 404 ''404 Not Found''"

definition guarded :: "string \<Rightarrow> sim \<Rightarrow> ((exn + 'a) \<times> sim) \<Rightarrow> (exn + 'a) \<times> sim" where
  "guarded op s r = (if op \<in> set (broken s) then (Inl transport, s) else r)"

definition fresh :: "char \<Rightarrow> sim \<Rightarrow> string" where
  "fresh c s = c # replicate (next_id s) (CHR ''1'')"

text \<open>A toy content hash: one character for each code point.\<close>

definition hash_of :: "pystr \<Rightarrow> string" where
  "hash_of content = map b64_char content"

definition sim_get_git_ref :: "string \<Rightarrow> sim \<Rightarrow> (exn + git_ref) \<times> sim" where
  "sim_get_git_ref name s =
     guarded ''get_git_ref'' s
       (if heads s = [] then (Inl (GithubException 409 ''409 Git Repository is empty.''), s)
        else (case map_of (heads s) name of
                None \<Rightarrow> (Inl not_found, s)
              | Some sha \<Rightarrow> (Inr (GitRef name sha), s)))"

definition sim_get_git_commit :: "string \<Rightarrow> sim \<Rightarrow> (exn + git_commit) \<times> sim" where
  "sim_get_git_commit sha s =
     guarded ''get_git_commit'' s
       (case map_of (tree_of s) sha of
          None \<Rightarrow> (Inl not_found, s)
        | Some t \<Rightarrow> (Inr (GitCommit sha t), s))"

definition sim_get_git_tree :: "string \<Rightarrow> sim \<Rightarrow> (exn + git_tree) \<times> sim" where
  "sim_get_git_tree sha s = guarded ''get_git_tree'' s (Inr (GitTree sha), s)"

definition sim_create_git_ref :: "string \<Rightarrow> string \<Rightarrow> sim \<Rightarrow> (exn + git_ref) \<times> sim" where
  "sim_create_git_ref name sha s =
     guarded ''create_git_ref'' s
       (Inr (GitRef name sha), s\<lparr>heads := (drop 5 name, sha) # heads s\<rparr>)"

definition commit_file :: "string \<Rightarrow> pystr \<Rightarrow> string \<Rightarrow> sim \<Rightarrow> sim" where
  "commit_file path content branch s =
     s\<lparr>heads := (''heads/'' @ branch, fresh (CHR ''c'') s) # heads s,
       tree_of := (fresh (CHR ''c'') s, fresh (CHR ''t'') s) # tree_of s,
       blob_at := (path, hash_of content) # blob_at s,
       next_id := Suc (next_id s)\<rparr>"

definition sim_create_file ::
  "string \<Rightarrow> string \<Rightarrow> pystr \<Rightarrow> string \<Rightarrow> sim \<Rightarrow> (exn + unit) \<times> sim" where
  "sim_create_file path msg content branch s =
     guarded ''create_file'' s
       (case map_of (blob_at s) path of
          Some sha \<Rightarrow> (Inl (GithubException 422 ''422 sha was not supplied''), s)
        | None \<Rightarrow> (Inr (), commit_file path content branch s))"

definition sim_update_file ::
  "string \<Rightarrow> string \<Rightarrow> pystr \<Rightarrow> string \<Rightarrow> string \<Rightarrow> sim \<Rightarrow> (exn + unit) \<times> sim" where
  "sim_update_file path msg content sha branch s =
     guarded ''update_file'' s
       (case map_of (blob_at s) path of
          None \<Rightarrow> (Inl not_found, s)
        | Some current \<Rightarrow>
            if current = sha then (Inr (), commit_file path content branch s)
            else (Inl (GithubException 409 ''409 does not match''), s))"

definition sim_get_contents :: "string \<Rightarrow> string \<Rightarrow> sim \<Rightarrow> (exn + content_file) \<times> sim" where
  "sim_get_contents path branch s =
     guarded ''get_contents'' s
       (case map_of (blob_at s) path of
          None \<Rightarrow> (Inl not_found, s)
        | Some sha \<Rightarrow> (Inr (ContentFile sha), s))"

definition sim_create_git_blob :: "string \<Rightarrow> string \<Rightarrow> sim \<Rightarrow> (exn + git_blob) \<times> sim" where
  "sim_create_git_blob content encoding s =
     guarded ''create_git_blob'' s (Inr (GitBlob (CHR ''b'' # content)), s)"

definition sim_create_git_tree ::
  "tree_element list \<Rightarrow> git_tree \<Rightarrow> sim \<Rightarrow> (exn + git_tree) \<times> sim" where
  "sim_create_git_tree elements base s =
     guarded ''create_git_tree'' s
       (Inr (GitTree (fresh (CHR ''t'') s)), s\<lparr>next_id := Suc (next_id s)\<rparr>)"

definition sim_create_git_commit ::
  "string \<Rightarrow> git_tree \<Rightarrow> git_commit list \<Rightarrow> sim \<Rightarrow> (exn + git_commit) \<times> sim" where
  "sim_create_git_commit msg tree parents s =
     guarded ''create_git_commit'' s
       (Inr (GitCommit (fresh (CHR ''c'') s) (tree_id tree)),
        s\<lparr>tree_of := (fresh (CHR ''c'') s, tree_id tree) # tree_of s,
          next_id := Suc (next_id s)\<rparr>)"

definition sim_edit_ref :: "git_ref \<Rightarrow> string \<Rightarrow> sim \<Rightarrow> (exn + unit) \<times> sim" where
  "sim_edit_ref ref sha s =
     guarded ''edit_ref'' s (Inr (), s\<lparr>heads := (ref_path ref, sha) # heads s\<rparr>)"

definition sim_repo :: "string \<Rightarrow> sim repo" where
  "sim_repo dflt =
     \<lparr>default_branch = dflt,
      html_url = ''https://github.com/octocat/demo'',
      api_get_git_ref = sim_get_git_ref,
      api_get_git_commit = sim_get_git_commit,
      api_get_git_tree = sim_get_git_tree,
      api_create_git_ref = sim_create_git_ref,
      api_create_file = sim_create_file,
      api_update_file = sim_update_file,
      api_get_contents = sim_get_contents,
      api_create_git_blob = sim_create_git_blob,
      api_create_git_tree = sim_create_git_tree,
      api_create_git_commit = sim_create_git_commit,
      api_edit_ref = sim_edit_ref\<rparr>"

definition sim_client :: "string \<Rightarrow> sim client" where
  "sim_client dflt =
     \<lparr>api_get_repo = (\<lambda>name s. guarded ''get_repo'' s (Inr (sim_repo dflt), s)),
      api_create_repo =
        (\<lambda>name description private s. guarded ''create_repo'' s (Inr (sim_repo dflt), s))\<rparr>"

section \<open>Notions used to state the properties\<close>

text \<open>
  The README of the snapshot is consumed by the bootstrap when the first resolution of
  the branch raises the empty-repository signal, the caller gave no README text and the
  snapshot has a file whose lowered relative path is \<^verbatim>\<open>readme.md\<close>.
\<close>

definition readme_consumed ::
  "'r repo \<Rightarrow> pystr option \<Rightarrow> string \<Rightarrow> (string \<times> string) list \<Rightarrow> 'r world \<Rightarrow> bool" where
  "readme_consumed repo readme_content branch files_to_upload w =
     (case fst (resolve repo (''heads/'' @ branch) w) of
        Inl e \<Rightarrow> is_empty_repo e \<and> \<not> truthy readme_content \<and> find_readme files_to_upload \<noteq> None
      | Inr r \<Rightarrow> False)"

text \<open>The state of the loop after a skipped file.\<close>

definition skip :: "loop_state \<Rightarrow> loop_state" where
  "skip st = st\<lparr>files_skipped := files_skipped st + 1\<rparr>"

text \<open>A computation only appends to the list of the calls issued.\<close>

definition appends :: "('r, 'a) io \<Rightarrow> bool" where
  "appends m = (\<forall>w. \<exists>ext. snd (snd (m w)) = snd w @ ext)"


text \<open>
  A file of the project directory, by the names on the way down to it and with what
  \<^verbatim>\<open>stat()\<close> gives for it.
\<close>

inductive file_at :: "entry list \<Rightarrow> string list \<Rightarrow> nat option \<Rightarrow> bool" where
  here: "File name st_size \<in> set es \<Longrightarrow> file_at es [name] st_size"
| below: "Dir d ch \<in> set es \<Longrightarrow> file_at ch names st_size \<Longrightarrow> file_at es (d # names) st_size"

text \<open>A name passes the exclusion rules.\<close>

definition admitted :: "string \<Rightarrow> bool" where
  "admitted name = (\<not> starts_with ''.'' name \<and> name \<notin> set EXCLUDE_PATTERNS)"

text \<open>
  A pair of the collector's output comes from a file of the directory that passes the
  rules, at most as large as the ceiling, under directories that pass the rules.
\<close>

definition eligible :: "string \<Rightarrow> string \<Rightarrow> entry list \<Rightarrow> string \<times> string \<Rightarrow> bool" where
  "eligible root rel es f =
     (\<exists>names sz. file_at es names (Some sz) \<and> sz \<le> MAX_FILE_SIZE
        \<and> list_all admitted names
        \<and> fst f = foldl join root names \<and> snd f = foldl join rel names)"

text \<open>The file paths a call names.\<close>

definition call_paths :: "call \<Rightarrow> string list" where
  "call_paths c =
     (case c of
        CreateFile p msg content branch \<Rightarrow> [p]
      | UpdateFile p msg content sha branch \<Rightarrow> [p]
      | GetContents p branch \<Rightarrow> [p]
      | CreateGitTree elements base \<Rightarrow> map el_path elements
      | _ \<Rightarrow> [])"

text \<open>
  A computation only appends calls, and every file path its calls name lies in a given
  set.
\<close>

definition keeps_to :: "string set \<Rightarrow> ('r, 'a) io \<Rightarrow> bool" where
  "keeps_to S m =
     (\<forall>w. \<exists>ext. snd (snd (m w)) = snd w @ ext \<and> (\<forall>c \<in> set ext. set (call_paths c) \<subseteq> S))"

section \<open>Concrete inputs\<close>

text \<open>
  Local files, and states of the small remote: a repository without commits, one with a
  first commit on \<^verbatim>\<open>main\<close>, and the same with some operations out of order.
\<close>

definition disk1 :: "string \<Rightarrow> bytes option" where
  "disk1 p = (if p = ''/p/a.txt'' then Some [0x68, 0x69]
              else if p = ''/p/b.bin'' then Some [0x00, 0x01]
              else if p = ''/p/README.md'' then Some [0x23]
              else None)"

definition empty_remote :: sim where
  "empty_remote = \<lparr>heads = [], tree_of = [], blob_at = [], broken = [], next_id = 0\<rparr>"

definition seeded :: sim where
  "seeded = \<lparr>heads = [(''heads/main'', ''c0'')], tree_of = [(''c0'', ''t0'')], blob_at = [],
             broken = [], next_id = 0\<rparr>"

definition jammed :: sim where
  "jammed = seeded\<lparr>broken := [''create_git_tree'']\<rparr>"

definition offline :: sim where
  "offline = seeded\<lparr>broken := [''get_contents'', ''create_git_blob'']\<rparr>"

definition stale :: sim where
  "stale = seeded\<lparr>blob_at := [(''a.txt'', ''old'')], broken := [''update_file'']\<rparr>"

definition read_only :: sim where
  "read_only = seeded\<lparr>broken := [''create_file'']\<rparr>"

text \<open>
  A repository whose default branch is \<^verbatim>\<open>develop\<close>, with a branch
  \<^verbatim>\<open>main\<close> beside it, and one without \<^verbatim>\<open>main\<close>.
\<close>

definition two_heads :: sim where
  "two_heads = \<lparr>heads = [(''heads/main'', ''cm''), (''heads/develop'', ''cd'')],
                tree_of = [(''cm'', ''tm''), (''cd'', ''td'')], blob_at = [], broken = [],
                next_id = 0\<rparr>"

definition no_main :: sim where
  "no_main = \<lparr>heads = [(''heads/develop'', ''cd'')], tree_of = [(''cd'', ''td'')], blob_at = [],
              broken = [], next_id = 0\<rparr>"



definition demo_project :: project where
  "demo_project =
     \<lparr>project_path = ''/p'', project_name = [112],
      entries = [File ''a.txt'' (Some 2), File ''b.bin'' (Some 2)]\<rparr>"

text \<open>
  The project information for the name \<^verbatim>\<open>My demo_1\<close> and the description
  \<^verbatim>\<open>A demo\<close>, and \<^verbatim>\<open>str.isalnum\<close> on the ASCII characters.
\<close>

definition demo_info :: project_info where
  "demo_info =
     \<lparr>info_name = [77, 121, 32, 100, 101, 109, 111, 95, 49],
      info_description = [65, 32, 100, 101, 109, 111]\<rparr>"

definition ascii_alnum :: "nat \<Rightarrow> bool" where
  "ascii_alnum c = ((48 \<le> c \<and> c \<le> 57) \<or> (65 \<le> c \<and> c \<le> 90) \<or> (97 \<le> c \<and> c \<le> 122))"

text \<open>Local files whose \<^verbatim>\<open>README.md\<close> is the single byte 0xFF, no UTF-8 text.\<close>

definition disk2 :: "string \<Rightarrow> bytes option" where
  "disk2 p = (if p = ''/p/README.md'' then Some [0xFF] else None)"

text \<open>
  The project of the scenario: a text file, a binary file, an archive of 6 MiB, a hidden
  file, a dependency directory, the version-control directory, and a file named like an
  excluded directory.
\<close>

definition mixed_project :: project where
  "mixed_project =
     \<lparr>project_path = ''/p'', project_name = [112],
      entries =
        [File ''a.txt'' (Some 2), File ''b.bin'' (Some 2), File ''oversized.zip'' (Some 6291456),
         File ''.env'' (Some 1), Dir ''node_modules'' [File ''x.js'' (Some 1)],
         Dir ''.git'' [File ''config'' (Some 1)], Dir ''src'' [File ''venv'' (Some 1)]]\<rparr>"

section \<open>Running computations\<close>

lemma ret_apply: "ret a w = (Inr a, w)" by (simp add: ret_def)
lemma raise_apply: "raise e w = (Inl e, w)" by (simp add: raise_def)
lemma lift_apply: "lift r w = (r, w)" by (simp add: lift_def)

lemma and_then_Inr: "m w = (Inr a, w') \<Longrightarrow> and_then m f w = f a w'"
  by (simp add: and_then_def)

lemma and_then_Inl: "m w = (Inl e, w') \<Longrightarrow> and_then m f w = (Inl e, w')"
  by (simp add: and_then_def)

lemma try_except_Inr: "m w = (Inr a, w') \<Longrightarrow> try_except m h w = (Inr a, w')"
  by (simp add: try_except_def)

lemma try_except_Inl: "m w = (Inl e, w') \<Longrightarrow> try_except m h w = h e w'"
  by (simp add: try_except_def)

lemma remote_apply: "f s = (r, s') \<Longrightarrow> remote c f (s, tr) = (r, (s', tr @ [c]))"
  by (simp add: remote_def)

section \<open>The classifier is total\<close>

lemma decode_cases: "(\<exists>t. decode content = Inr t) \<or> (\<exists>msg. decode content = Inl (UnicodeDecodeError msg))"
  by (simp add: decode_def split: option.splits)

text \<open>
  Claim C3. The content classifier never raises: on every byte sequence it returns a
  boolean. A sequence that contains the byte 0x00 is binary; a sequence without 0x00
  that decodes as UTF-8 is text; a sequence without 0x00 whose decoding raises
  \<^verbatim>\<open>UnicodeDecodeError\<close> is binary.
\<close>

theorem is_binary_classifies:
  "(\<exists>b. is_binary content = Inr b)
   \<and> (0 \<in> set content \<longrightarrow> is_binary content = Inr True)
   \<and> (0 \<notin> set content \<and> (\<exists>t. decode content = Inr t) \<longrightarrow> is_binary content = Inr False)
   \<and> (0 \<notin> set content \<and> (\<exists>msg. decode content = Inl (UnicodeDecodeError msg))
        \<longrightarrow> is_binary content = Inr True)"
  using decode_cases [of content] by (auto simp: is_binary_def)

text \<open>
  The three cases on a PNG-like header with a NUL byte, on the UTF-8 text
  \<^verbatim>\<open>h\u00e9\<close>, and on an overlong encoding.
\<close>

theorem is_binary_classifies_witness:
  "(0 \<in> set [0x89, 0x50, 0x00 :: byte] \<and> is_binary [0x89, 0x50, 0x00] = Inr True)
   \<and> (0 \<notin> set [0x68, 0xC3, 0xA9 :: byte] \<and> decode [0x68, 0xC3, 0xA9] = Inr [104, 233]
        \<and> is_binary [0x68, 0xC3, 0xA9] = Inr False)
   \<and> (0 \<notin> set [0xC0, 0x80 :: byte] \<and> decode [0xC0, 0x80] = Inl (UnicodeDecodeError ''invalid utf-8'')
        \<and> is_binary [0xC0, 0x80] = Inr True)"
  using is_binary_classifies [of "[0x89, 0x50, 0x00]"]
    is_binary_classifies [of "[0x68, 0xC3, 0xA9]"]
    is_binary_classifies [of "[0xC0, 0x80]"]
  by (simp add: decode_def cont_def low6_def)

section \<open>Counting in the upload loop\<close>

lemma upload_step_counts:
  "upload_step repo disk branch st f w = (st', w')
   \<Longrightarrow> files_uploaded st' + files_skipped st' = Suc (files_uploaded st + files_skipped st)"
  by (auto simp: upload_step_def split: prod.splits sum.splits)

lemma upload_loop_counts:
  "upload_loop repo disk branch st fs w = (st', w')
   \<Longrightarrow> files_uploaded st' + files_skipped st' = files_uploaded st + files_skipped st + length fs"
proof (induction fs arbitrary: st w)
  case Nil
  then show ?case by simp
next
  case (Cons f fs)
  obtain st1 w1 where step: "upload_step repo disk branch st f w = (st1, w1)"
    by (cases "upload_step repo disk branch st f w")
  with Cons.prems have "upload_loop repo disk branch st1 fs w1 = (st', w')" by simp
  from Cons.IH [OF this] upload_step_counts [OF step] show ?case by simp
qed

lemma commit_binary_absorbs: "fst (commit_binary repo branch elements w) = Inr ()"
  by (auto simp: commit_binary_def try_except_def ret_def split: prod.splits sum.splits)

lemma sync_result:
  "upload_loop repo disk branch initial_state fs w = (st, w')
   \<Longrightarrow> fst (sync repo disk branch fs w)
       = Inr \<lparr>files_uploaded = files_uploaded st, files_skipped = files_skipped st\<rparr>"
  using commit_binary_absorbs [of repo branch "tree_elements st" w']
  by (cases "commit_binary repo branch (tree_elements st) w'")
     (simp add: sync_def and_then_def ret_def)

section \<open>Evaluation\<close>

lemma lower_README: "lower ''README.md'' = ''readme.md''"
  by (simp add: lower_def lower_char_def)

lemma not_found_is_not_found: "is_not_found not_found"
  by (simp add: is_not_found_def not_found_def)

lemma is_binary_samples: "is_binary [0x00, 0x01] = Inr True" "is_binary [0x68, 0x69] = Inr False"
  by (simp_all add: is_binary_def decode_def)

lemma b64encode_sample: "b64encode [0x00, 0x01] = ''AAE=''"
  by (simp add: b64_char_def b64_alphabet_def)

lemma is_empty_repo_samples: "is_empty_repo (GithubException 409 ''409 Git Repository is empty.'')" "\<not> is_empty_repo not_found"
  by (simp_all add: is_empty_repo_def not_found_def)

lemmas run_defs =
  upload_collected_def ensure_branch_def resolve_def initial_commit_def create_branch_def
  sync_def commit_binary_def upload_step_def process_file_def upload_text_def
  read_file_def initial_state_def truthy_def find_readme_def
  and_then_def try_except_def ret_def raise_def lift_def remote_def
  get_git_ref_def get_git_commit_def get_git_tree_def create_git_ref_def create_file_def
  update_file_def get_contents_def create_git_blob_def create_git_tree_def
  create_git_commit_def edit_ref_def

lemmas sim_defs =
  sim_repo_def sim_get_git_ref_def sim_get_git_commit_def sim_get_git_tree_def
  sim_create_git_ref_def sim_create_file_def sim_update_file_def sim_get_contents_def
  sim_create_git_blob_def sim_create_git_tree_def sim_create_git_commit_def sim_edit_ref_def
  guarded_def fresh_def hash_of_def commit_file_def

lemmas fixture_defs =
  disk1_def seeded_def jammed_def offline_def empty_remote_def stale_def read_only_def
  b64_char_def b64_alphabet_def decode_def lower_README not_found_is_not_found is_binary_samples is_empty_repo_samples

section \<open>The counters partition the files\<close>

lemma filter_out_one:
  "distinct xs \<Longrightarrow> x \<in> set xs \<Longrightarrow> length (filter (\<lambda>t. t \<noteq> x) xs) = length xs - 1"
proof (induction xs)
  case Nil
  then show ?case by simp
next
  case (Cons a xs)
  show ?case
  proof (cases "a = x")
    case True
    with Cons.prems have "x \<notin> set xs" by simp
    then have "filter (\<lambda>t. t \<noteq> x) xs = xs" by (induction xs) auto
    with True show ?thesis by simp
  next
    case False
    with Cons have "length (filter (\<lambda>t. t \<noteq> x) xs) = length xs - 1" and "x \<in> set xs" by auto
    moreover from \<open>x \<in> set xs\<close> have "0 < length xs" by (cases xs) auto
    ultimately show ?thesis using False by simp
  qed
qed

lemma find_member: "find P xs = Some x \<Longrightarrow> x \<in> set xs \<and> P x"
  by (induction xs) (auto split: if_splits)

lemma find_readme_member: "find_readme fs = Some t \<Longrightarrow> t \<in> set fs"
  by (simp add: find_readme_def find_member)

lemma initial_commit_remaining:
  "initial_commit repo disk name readme branch fs w = (Inr remaining, w')
   \<Longrightarrow> remaining = (if \<not> truthy readme \<and> find_readme fs \<noteq> None
                    then filter (\<lambda>t. t \<noteq> the (find_readme fs)) fs else fs)"
  by (auto simp: initial_commit_def and_then_def ret_def split: if_splits option.splits prod.splits sum.splits)

lemma ensure_branch_remaining:
  assumes "ensure_branch repo disk name readme branch fs w = (Inr (remaining, r), w1)"
  shows "remaining = (if readme_consumed repo readme branch fs w
                      then filter (\<lambda>t. t \<noteq> the (find_readme fs)) fs else fs)"
proof -
  obtain res w0 where Pair: "resolve repo (''heads/'' @ branch) w = (res, w0)"
    by (cases "resolve repo (''heads/'' @ branch) w")
  show ?thesis
  proof (cases res)
    case (Inr v)
    with Pair assms show ?thesis
      by (simp add: ensure_branch_def try_except_def and_then_def ret_def readme_consumed_def)
  next
    case (Inl e)
    show ?thesis
    proof (cases "is_empty_repo e")
      case True
      with Inl Pair assms obtain w2 where
        "initial_commit repo disk name readme branch fs w0 = (Inr remaining, w2)"
        by (auto simp: ensure_branch_def try_except_def and_then_def ret_def
            split: prod.splits sum.splits)
      from initial_commit_remaining [OF this] True Inl Pair show ?thesis
        by (simp add: readme_consumed_def)
    next
      case False
      with Inl Pair assms show ?thesis
        by (auto simp: ensure_branch_def try_except_def and_then_def ret_def readme_consumed_def
            split: prod.splits sum.splits)
    qed
  qed
qed

text \<open>
  Claim C2. Take a snapshot whose entries are pairwise different (relative paths are
  unique within a run), and a run of lines 88 to 178 on it that returns, that is, whose
  bootstrap succeeded. Then every file of the snapshot is counted exactly once:
  \<open>files_uploaded + files_skipped\<close> is the number of the files, minus one when the
  README of the snapshot was consumed by the bootstrap of an empty repository. This holds
  whether the final commit of the binary files fails or not.
\<close>

theorem counters_partition_the_files:
  assumes "distinct files_to_upload"
    and "fst (upload_collected repo disk name readme_content branch files_to_upload w) = Inr result"
  shows "files_uploaded result + files_skipped result
         = length files_to_upload
           - (if readme_consumed repo readme_content branch files_to_upload w then 1 else 0)"
proof -
  from assms(2) obtain remaining r w1 where
    eb: "ensure_branch repo disk name readme_content branch files_to_upload w = (Inr (remaining, r), w1)"
    and sy: "fst (sync repo disk branch remaining w1) = Inr result"
    by (auto simp: upload_collected_def and_then_def split: prod.splits sum.splits)
  obtain st w2 where loop: "upload_loop repo disk branch initial_state remaining w1 = (st, w2)"
    by (cases "upload_loop repo disk branch initial_state remaining w1")
  from sync_result [OF loop] sy
  have res: "result = \<lparr>files_uploaded = files_uploaded st, files_skipped = files_skipped st\<rparr>"
    by simp
  from upload_loop_counts [OF loop]
  have total: "files_uploaded st + files_skipped st = length remaining"
    by (simp add: initial_state_def)
  show ?thesis
  proof (cases "readme_consumed repo readme_content branch files_to_upload w")
    case False
    with ensure_branch_remaining [OF eb] res total show ?thesis by simp
  next
    case True
    then obtain t where t: "find_readme files_to_upload = Some t"
      by (auto simp: readme_consumed_def split: sum.splits)
    from True t ensure_branch_remaining [OF eb]
    have "remaining = filter (\<lambda>x. x \<noteq> t) files_to_upload" by simp
    with filter_out_one [OF assms(1) find_readme_member [OF t]] res total True
    show ?thesis by simp
  qed
qed

text \<open>
  An empty repository, no README text from the caller, a snapshot of \<^verbatim>\<open>README.md\<close>
  and \<^verbatim>\<open>a.txt\<close>: the README goes into the initial commit, one file is left and
  uploaded.
\<close>

theorem counters_partition_the_files_witness:
  "distinct [(''/p/README.md'', ''README.md''), (''/p/a.txt'', ''a.txt'')]
   \<and> fst (upload_collected (sim_repo ''main'') disk1 [112] None ''main''
            [(''/p/README.md'', ''README.md''), (''/p/a.txt'', ''a.txt'')] (empty_remote, []))
       = Inr \<lparr>files_uploaded = 1, files_skipped = 0\<rparr>
   \<and> readme_consumed (sim_repo ''main'') None ''main''
         [(''/p/README.md'', ''README.md''), (''/p/a.txt'', ''a.txt'')] (empty_remote, [])
   \<and> files_uploaded \<lparr>files_uploaded = 1, files_skipped = 0\<rparr>
       + files_skipped \<lparr>files_uploaded = 1, files_skipped = 0\<rparr>
       = length [(''/p/README.md'', ''README.md''), (''/p/a.txt'', ''a.txt'')] - 1"
  using counters_partition_the_files
    [of "[(''/p/README.md'', ''README.md''), (''/p/a.txt'', ''a.txt'')]" "sim_repo ''main''" disk1
       "[112]" None "''main''" "(empty_remote, [])" "\<lparr>files_uploaded = 1, files_skipped = 0\<rparr>"]
  by (simp add: run_defs sim_defs fixture_defs readme_consumed_def)

section \<open>Staged binary files are counted\<close>







section \<open>A failure on one file skips that file\<close>







lemma step_outcomes:
  "fst (upload_step repo disk branch st f w) = skip st
   \<or> (\<exists>staged. fst (upload_step repo disk branch st f w)
         = st\<lparr>files_uploaded := files_uploaded st + 1, tree_elements := staged\<rparr>)"
  by (auto simp: upload_step_def skip_def split: prod.splits sum.splits)




section \<open>The commit of the binary files\<close>

lemma commit_binary_nothing: "commit_binary repo branch [] w = (Inr (), w)"
  by (simp add: commit_binary_def ret_def)

lemma commit_binary_calls:
  assumes "elements \<noteq> []"
    "api_get_git_ref repo (''heads/'' @ branch) s0 = (Inr ref, s1)"
    "api_get_git_commit repo (object_sha ref) s1 = (Inr latest_commit, s2)"
    "api_get_git_tree repo (tree_sha latest_commit) s2 = (Inr base_tree, s3)"
    "api_create_git_tree repo elements base_tree s3 = (Inr new_tree, s4)"
    "api_create_git_commit repo ''Add/update binary files'' new_tree [latest_commit] s4
     = (Inr new_commit, s5)"
    "api_edit_ref repo ref (commit_sha new_commit) s5 = (r, s6)"
  shows "commit_binary repo branch elements (s0, tr)
         = (Inr (),
            (s6, tr @ [GetGitRef (''heads/'' @ branch), GetGitCommit (object_sha ref),
                       GetGitTree (tree_sha latest_commit),
                       CreateGitTree elements base_tree,
                       CreateGitCommit ''Add/update binary files'' new_tree [latest_commit],
                       EditRef ref (commit_sha new_commit)]))"
  using assms
  by (cases r)
     (simp_all add: commit_binary_def resolve_def try_except_def and_then_def ret_def remote_def
        get_git_ref_def get_git_commit_def get_git_tree_def create_git_tree_def
        create_git_commit_def edit_ref_def)

lemma and_then_assoc:
  "and_then (and_then m f) g = and_then m (\<lambda>a. and_then (f a) g)"
  by (rule ext) (simp add: and_then_def split: prod.splits sum.splits)

lemma appends_ret: "appends (ret a)"
  by (simp add: appends_def ret_def)

lemma appends_raise: "appends (raise e)"
  by (simp add: appends_def raise_def)

lemma appends_lift: "appends (lift r)"
  by (simp add: appends_def lift_def)

lemma appends_remote: "appends (remote c f)"
  by (simp add: appends_def remote_def split: prod.splits)

lemma appendsD: "appends m \<Longrightarrow> \<exists>ext. snd (snd (m w)) = snd w @ ext"
  unfolding appends_def by blast

lemma appends_and_then:
  assumes "appends m" and "\<And>a. appends (f a)"
  shows "appends (and_then m f)"
  unfolding appends_def
proof
  fix w
  obtain r w1 where mw: "m w = (r, w1)" by (cases "m w")
  from appendsD [OF assms(1), of w] mw obtain e1 where e1: "snd w1 = snd w @ e1"
    by auto
  show "\<exists>ext. snd (snd (and_then m f w)) = snd w @ ext"
  proof (cases r)
    case (Inl e)
    with mw e1 show ?thesis by (simp add: and_then_def)
  next
    case (Inr a)
    from appendsD [OF assms(2) [of a], of w1]
    obtain e2 where "snd (snd (f a w1)) = snd w1 @ e2" by auto
    with mw Inr e1 show ?thesis by (simp add: and_then_def)
  qed
qed

lemma appends_try_except:
  assumes "appends m" and "\<And>e. appends (h e)"
  shows "appends (try_except m h)"
  unfolding appends_def
proof
  fix w
  obtain r w1 where mw: "m w = (r, w1)" by (cases "m w")
  from appendsD [OF assms(1), of w] mw obtain e1 where e1: "snd w1 = snd w @ e1"
    by auto
  show "\<exists>ext. snd (snd (try_except m h w)) = snd w @ ext"
  proof (cases r)
    case (Inr a)
    with mw e1 show ?thesis by (simp add: try_except_def)
  next
    case (Inl e)
    from appendsD [OF assms(2) [of e], of w1]
    obtain e2 where "snd (snd (h e w1)) = snd w1 @ e2" by auto
    with mw Inl e1 show ?thesis by (simp add: try_except_def)
  qed
qed

lemma appends_calls:
  "appends (get_git_ref repo n)"
  "appends (get_git_commit repo n)"
  "appends (get_git_tree repo n)"
  "appends (create_git_ref repo n sh)"
  "appends (create_file repo p m t b)"
  "appends (update_file repo p m t sh b)"
  "appends (get_contents repo p b)"
  "appends (create_git_blob repo n b)"
  "appends (create_git_tree repo els bt)"
  "appends (create_git_commit repo m nt ps)"
  "appends (edit_ref repo rf sh)"
  by (simp_all add: get_git_ref_def get_git_commit_def get_git_tree_def create_git_ref_def
      create_file_def update_file_def get_contents_def create_git_blob_def create_git_tree_def
      create_git_commit_def edit_ref_def appends_remote)

lemmas appends_rules =
  appends_ret appends_raise appends_lift appends_and_then appends_try_except appends_calls

lemma first_call:
  assumes "\<And>a. appends (k a)" and "\<And>e. appends (h e)"
  shows "\<exists>rest. snd (snd (try_except (and_then (remote c f) k) h (s, tr))) = tr @ c # rest"
proof -
  obtain r s1 where fs: "f s = (r, s1)" by (cases "f s")
  show ?thesis
  proof (cases r)
    case (Inl e)
    from appendsD [OF assms(2) [of e], of "(s1, tr @ [c])"] obtain e2 where
      "snd (snd (h e (s1, tr @ [c]))) = (tr @ [c]) @ e2"
      by auto
    with fs Inl show ?thesis by (simp add: try_except_def and_then_def remote_def)
  next
    case (Inr a)
    have "appends (try_except (k a) h)"
      by (rule appends_try_except) (rule assms)+
    from appendsD [OF this, of "(s1, tr @ [c])"] obtain e2 where
      "snd (snd (try_except (k a) h (s1, tr @ [c]))) = (tr @ [c]) @ e2"
      by auto
    with fs Inr show ?thesis by (simp add: try_except_def and_then_def remote_def)
  qed
qed

lemma commit_binary_first:
  assumes "elements \<noteq> []"
  shows "\<exists>rest. snd (snd (commit_binary repo branch elements (s, tr)))
                = tr @ GetGitRef (''heads/'' @ branch) # rest"
proof -
  have "commit_binary repo branch elements
        = try_except
            (and_then (remote (GetGitRef (''heads/'' @ branch))
                         (api_get_git_ref repo (''heads/'' @ branch)))
               (\<lambda>ref.
                  and_then
                    (and_then (get_git_commit repo (object_sha ref)) (\<lambda>latest_commit.
                     and_then (get_git_tree repo (tree_sha latest_commit)) (\<lambda>base_tree.
                     ret (ref, latest_commit, base_tree))))
                    (\<lambda>(ref, latest_commit, base_tree).
                     and_then (create_git_tree repo elements base_tree) (\<lambda>new_tree.
                     and_then
                       (create_git_commit repo ''Add/update binary files'' new_tree
                          [latest_commit])
                       (\<lambda>new_commit. edit_ref repo ref (commit_sha new_commit))))))
            (\<lambda>e. ret ())"
    using assms by (simp add: commit_binary_def resolve_def get_git_ref_def and_then_assoc)
  moreover have "\<exists>rest. snd (snd (\<dots> (s, tr))) = tr @ GetGitRef (''heads/'' @ branch) # rest"
    by (rule first_call) (auto intro!: appends_rules)
  ultimately show ?thesis by simp
qed

text \<open>
  Claim C4. When the loop has staged no tree element, the run issues no further call.
  When it has staged one, the next call is the resolution of the branch ref; and when the
  remote answers, the run issues, after all the calls of the loop and in this order: get
  the ref, get the commit the ref points at, get the tree of that commit, create a tree
  from the staged elements on that tree as base, create a commit of the new tree whose
  only parent is that commit, and move the ref to the new commit.
\<close>

theorem binary_commit_builds_on_current_head:
  "(upload_loop repo disk branch initial_state files w = (st, (s0, tr))
      \<and> tree_elements st = []
    \<longrightarrow> snd (sync repo disk branch files w) = (s0, tr))
   \<and> (upload_loop repo disk branch initial_state files w = (st, (s0, tr))
        \<and> tree_elements st \<noteq> []
      \<longrightarrow> (\<exists>rest. snd (snd (sync repo disk branch files w))
                   = tr @ GetGitRef (''heads/'' @ branch) # rest))
   \<and> (upload_loop repo disk branch initial_state files w = (st, (s0, tr))
        \<and> tree_elements st \<noteq> []
        \<and> api_get_git_ref repo (''heads/'' @ branch) s0 = (Inr ref, s1)
        \<and> api_get_git_commit repo (object_sha ref) s1 = (Inr latest_commit, s2)
        \<and> api_get_git_tree repo (tree_sha latest_commit) s2 = (Inr base_tree, s3)
        \<and> api_create_git_tree repo (tree_elements st) base_tree s3 = (Inr new_tree, s4)
        \<and> api_create_git_commit repo ''Add/update binary files'' new_tree [latest_commit] s4
            = (Inr new_commit, s5)
        \<and> api_edit_ref repo ref (commit_sha new_commit) s5 = (r, s6)
      \<longrightarrow> snd (sync repo disk branch files w)
          = (s6, tr @ [GetGitRef (''heads/'' @ branch), GetGitCommit (object_sha ref),
                       GetGitTree (tree_sha latest_commit),
                       CreateGitTree (tree_elements st) base_tree,
                       CreateGitCommit ''Add/update binary files'' new_tree [latest_commit],
                       EditRef ref (commit_sha new_commit)]))"
proof (intro conjI impI)
  assume "upload_loop repo disk branch initial_state files w = (st, (s0, tr))
          \<and> tree_elements st = []"
  then show "snd (sync repo disk branch files w) = (s0, tr)"
    by (simp add: sync_def commit_binary_nothing and_then_def ret_def)
next
  assume a: "upload_loop repo disk branch initial_state files w = (st, (s0, tr))
          \<and> tree_elements st \<noteq> []"
  then have loop: "upload_loop repo disk branch initial_state files w = (st, (s0, tr))"
    and ne: "tree_elements st \<noteq> []" by simp_all
  obtain u w2 where cb: "commit_binary repo branch (tree_elements st) (s0, tr) = (u, w2)"
    by (cases "commit_binary repo branch (tree_elements st) (s0, tr)")
  from commit_binary_first [OF ne, of repo branch s0 tr] cb
  obtain rest where rest: "snd w2 = tr @ GetGitRef (''heads/'' @ branch) # rest" by auto
  from commit_binary_absorbs [of repo branch "tree_elements st" "(s0, tr)"] cb
  have u: "u = Inr ()" by simp
  from loop cb u have "snd (sync repo disk branch files w) = w2"
    by (simp add: sync_def and_then_def ret_def)
  with rest show "\<exists>rest. snd (snd (sync repo disk branch files w))
                   = tr @ GetGitRef (''heads/'' @ branch) # rest"
    by simp
next
  assume a: "upload_loop repo disk branch initial_state files w = (st, (s0, tr))
        \<and> tree_elements st \<noteq> []
        \<and> api_get_git_ref repo (''heads/'' @ branch) s0 = (Inr ref, s1)
        \<and> api_get_git_commit repo (object_sha ref) s1 = (Inr latest_commit, s2)
        \<and> api_get_git_tree repo (tree_sha latest_commit) s2 = (Inr base_tree, s3)
        \<and> api_create_git_tree repo (tree_elements st) base_tree s3 = (Inr new_tree, s4)
        \<and> api_create_git_commit repo ''Add/update binary files'' new_tree [latest_commit] s4
            = (Inr new_commit, s5)
        \<and> api_edit_ref repo ref (commit_sha new_commit) s5 = (r, s6)"
  then have loop: "upload_loop repo disk branch initial_state files w = (st, (s0, tr))"
    and ne: "tree_elements st \<noteq> []"
    and h1: "api_get_git_ref repo (''heads/'' @ branch) s0 = (Inr ref, s1)"
    and h2: "api_get_git_commit repo (object_sha ref) s1 = (Inr latest_commit, s2)"
    and h3: "api_get_git_tree repo (tree_sha latest_commit) s2 = (Inr base_tree, s3)"
    and h4: "api_create_git_tree repo (tree_elements st) base_tree s3 = (Inr new_tree, s4)"
    and h5: "api_create_git_commit repo ''Add/update binary files'' new_tree [latest_commit] s4
            = (Inr new_commit, s5)"
    and h6: "api_edit_ref repo ref (commit_sha new_commit) s5 = (r, s6)"
    by blast+
  from loop commit_binary_calls [OF ne h1 h2 h3 h4 h5 h6, of tr]
  show "snd (sync repo disk branch files w)
          = (s6, tr @ [GetGitRef (''heads/'' @ branch), GetGitCommit (object_sha ref),
                       GetGitTree (tree_sha latest_commit),
                       CreateGitTree (tree_elements st) base_tree,
                       CreateGitCommit ''Add/update binary files'' new_tree [latest_commit],
                       EditRef ref (commit_sha new_commit)])"
    by (simp add: sync_def and_then_def ret_def)
qed

text \<open>
  One binary file on the seeded remote: the six calls follow the blob creation, on the
  head \<^verbatim>\<open>c0\<close> and its tree \<^verbatim>\<open>t0\<close>. A run with one text file issues no call
  after its loop.
\<close>

theorem binary_commit_builds_on_current_head_witness:
  "upload_loop (sim_repo ''main'') disk1 ''main'' initial_state [(''/p/b.bin'', ''b.bin'')]
     (seeded, [])
   = (\<lparr>files_uploaded = 1, files_skipped = 0,
       tree_elements = [InputGitTreeElement ''b.bin'' ''100644'' ''blob'' ''bAAE='']\<rparr>,
      (seeded, [CreateGitBlob ''AAE='' ''base64'']))
   \<and> api_get_git_ref (sim_repo ''main'') ''heads/main'' seeded
       = (Inr (GitRef ''heads/main'' ''c0''), seeded)
   \<and> api_get_git_commit (sim_repo ''main'') ''c0'' seeded = (Inr (GitCommit ''c0'' ''t0''), seeded)
   \<and> api_get_git_tree (sim_repo ''main'') ''t0'' seeded = (Inr (GitTree ''t0''), seeded)
   \<and> api_create_git_tree (sim_repo ''main'')
         [InputGitTreeElement ''b.bin'' ''100644'' ''blob'' ''bAAE=''] (GitTree ''t0'') seeded
       = (Inr (GitTree ''t''), seeded\<lparr>next_id := 1\<rparr>)
   \<and> api_create_git_commit (sim_repo ''main'') ''Add/update binary files'' (GitTree ''t'')
         [GitCommit ''c0'' ''t0''] (seeded\<lparr>next_id := 1\<rparr>)
       = (Inr (GitCommit ''c1'' ''t''),
          seeded\<lparr>tree_of := [(''c1'', ''t''), (''c0'', ''t0'')], next_id := 2\<rparr>)
   \<and> api_edit_ref (sim_repo ''main'') (GitRef ''heads/main'' ''c0'') ''c1''
         (seeded\<lparr>tree_of := [(''c1'', ''t''), (''c0'', ''t0'')], next_id := 2\<rparr>)
       = (Inr (),
          seeded\<lparr>heads := [(''heads/main'', ''c1''), (''heads/main'', ''c0'')],
                 tree_of := [(''c1'', ''t''), (''c0'', ''t0'')], next_id := 2\<rparr>)
   \<and> snd (sync (sim_repo ''main'') disk1 ''main'' [(''/p/b.bin'', ''b.bin'')] (seeded, []))
       = (seeded\<lparr>heads := [(''heads/main'', ''c1''), (''heads/main'', ''c0'')],
                 tree_of := [(''c1'', ''t''), (''c0'', ''t0'')], next_id := 2\<rparr>,
          [CreateGitBlob ''AAE='' ''base64'', GetGitRef ''heads/main'', GetGitCommit ''c0'',
           GetGitTree ''t0'',
           CreateGitTree [InputGitTreeElement ''b.bin'' ''100644'' ''blob'' ''bAAE='']
             (GitTree ''t0''),
           CreateGitCommit ''Add/update binary files'' (GitTree ''t'') [GitCommit ''c0'' ''t0''],
           EditRef (GitRef ''heads/main'' ''c0'') ''c1''])
   \<and> snd (sync (sim_repo ''main'') disk1 ''main'' [(''/p/a.txt'', ''a.txt'')] (seeded, []))
       = snd (upload_loop (sim_repo ''main'') disk1 ''main'' initial_state
                [(''/p/a.txt'', ''a.txt'')] (seeded, []))"
  using binary_commit_builds_on_current_head
    [of "sim_repo ''main''" disk1 "''main''" "[(''/p/b.bin'', ''b.bin'')]" "(seeded, [])"
       "\<lparr>files_uploaded = 1, files_skipped = 0,
         tree_elements = [InputGitTreeElement ''b.bin'' ''100644'' ''blob'' ''bAAE='']\<rparr>"
       seeded "[CreateGitBlob ''AAE='' ''base64'']"
       "GitRef ''heads/main'' ''c0''" seeded "GitCommit ''c0'' ''t0''" seeded "GitTree ''t0''" seeded
       "GitTree ''t''" "seeded\<lparr>next_id := 1\<rparr>" "GitCommit ''c1'' ''t''"
       "seeded\<lparr>tree_of := [(''c1'', ''t''), (''c0'', ''t0'')], next_id := 2\<rparr>"
       "Inr ()"
       "seeded\<lparr>heads := [(''heads/main'', ''c1''), (''heads/main'', ''c0'')],
                 tree_of := [(''c1'', ''t''), (''c0'', ''t0'')], next_id := 2\<rparr>"]
  by (simp add: run_defs sim_defs fixture_defs)

section \<open>The bootstrap of an empty repository\<close>

lemma find_readme_none:
  "find_readme fs = None \<Longrightarrow> (fp, rp) \<in> set fs \<Longrightarrow> lower rp \<noteq> ''readme.md''"
  by (auto simp: find_readme_def find_None_iff)

lemma find_readme_some:
  "find_readme fs = Some (fp, rp) \<Longrightarrow> (fp, rp) \<in> set fs \<and> lower rp = ''readme.md''"
  using find_member [of "\<lambda>(fp, rp). lower rp = ''readme.md''" fs "(fp, rp)"]
  by (simp add: find_readme_def)

lemma ensure_branch_empty:
  assumes "resolve repo (''heads/'' @ branch) w = (Inl e, w0)" "is_empty_repo e"
  shows "ensure_branch repo disk name readme_content branch fs w
         = and_then (initial_commit repo disk name readme_content branch fs)
             (\<lambda>remaining. and_then (resolve repo (''heads/'' @ branch)) (\<lambda>r. ret (remaining, r)))
             w0"
  using assms by (simp add: ensure_branch_def try_except_def and_then_def)

lemma initial_commit_supplied:
  assumes "readme_content = Some t" "t \<noteq> []"
    "api_create_file repo ''README.md'' ''Initial commit: README.md'' t branch s0 = (Inr (), s1)"
  shows "initial_commit repo disk name readme_content branch fs (s0, tr)
         = (Inr fs, (s1, tr @ [CreateFile ''README.md'' ''Initial commit: README.md'' t branch]))"
  using assms
  by (simp add: initial_commit_def truthy_def and_then_def ret_def create_file_def remote_def)

lemma initial_commit_snapshot:
  assumes "\<not> truthy readme_content" "find_readme fs = Some (fp, rp)"
    "disk fp = Some content" "decode content = Inr decoded"
    "api_create_file repo rp (''Initial commit: '' @ rp) decoded branch s0 = (Inr (), s1)"
  shows "initial_commit repo disk name readme_content branch fs (s0, tr)
         = (Inr (filter (\<lambda>t. t \<noteq> (fp, rp)) fs),
            (s1, tr @ [CreateFile rp (''Initial commit: '' @ rp) decoded branch]))"
  using assms
  by (simp add: initial_commit_def and_then_def ret_def create_file_def remote_def read_file_def
      lift_def)

lemma initial_commit_placeholder:
  assumes "\<not> truthy readme_content" "find_readme fs = None"
    "api_create_file repo ''README.md'' ''Initial commit: README.md''
       (map of_char ''# '' @ name) branch s0 = (Inr (), s1)"
  shows "initial_commit repo disk name readme_content branch fs (s0, tr)
         = (Inr fs,
            (s1, tr @ [CreateFile ''README.md'' ''Initial commit: README.md''
                         (map of_char ''# '' @ name) branch]))"
  using assms
  by (simp add: initial_commit_def and_then_def ret_def create_file_def remote_def)

text \<open>
  Claim C5, as amended. Let the first resolution of the branch raise the
  empty-repository signal (status 409, or a message that contains
  \<^verbatim>\<open>Git Repository is empty\<close>). The bootstrap then issues exactly one
  \<^verbatim>\<open>create_file\<close> call, chosen in this order, and when that call succeeds resolves
  the ref, its commit and its tree again. With non-empty README text from the caller, the
  call commits that text as \<^verbatim>\<open>README.md\<close> and the snapshot is left as it is.
  Otherwise (no text, or the empty string), with a first file of the snapshot whose
  lowered relative path is \<^verbatim>\<open>readme.md\<close> and which can be read and decodes as
  UTF-8, the call commits the decoded content under the file's own path, and the file is
  removed from the files still to upload. Otherwise, with no such file in the snapshot,
  the call commits the placeholder \<^verbatim>\<open>#\<close>, a space and the project name as
  \<^verbatim>\<open>README.md\<close>.
\<close>

theorem empty_repository_bootstrap:
  assumes "resolve repo (''heads/'' @ branch) w = (Inl e, (s0, tr))" and "is_empty_repo e"
  shows
    "(readme_content = Some t \<and> t \<noteq> []
        \<and> api_create_file repo ''README.md'' ''Initial commit: README.md'' t branch s0
            = (Inr (), s1)
      \<longrightarrow> ensure_branch repo disk name readme_content branch files_to_upload w
          = and_then (resolve repo (''heads/'' @ branch)) (\<lambda>r. ret (files_to_upload, r))
              (s1, tr @ [CreateFile ''README.md'' ''Initial commit: README.md'' t branch]))
     \<and> (\<not> truthy readme_content \<and> find_readme files_to_upload = Some (fp, rp)
          \<and> disk fp = Some content \<and> decode content = Inr decoded
          \<and> api_create_file repo rp (''Initial commit: '' @ rp) decoded branch s0 = (Inr (), s1)
        \<longrightarrow> (fp, rp) \<in> set files_to_upload \<and> lower rp = ''readme.md''
            \<and> (fp, rp) \<notin> set (filter (\<lambda>t. t \<noteq> (fp, rp)) files_to_upload)
            \<and> ensure_branch repo disk name readme_content branch files_to_upload w
                = and_then (resolve repo (''heads/'' @ branch))
                    (\<lambda>r. ret (filter (\<lambda>t. t \<noteq> (fp, rp)) files_to_upload, r))
                    (s1, tr @ [CreateFile rp (''Initial commit: '' @ rp) decoded branch]))
     \<and> (\<not> truthy readme_content \<and> find_readme files_to_upload = None
          \<and> api_create_file repo ''README.md'' ''Initial commit: README.md''
                (map of_char ''# '' @ name) branch s0 = (Inr (), s1)
        \<longrightarrow> (\<forall>f \<in> set files_to_upload. lower (snd f) \<noteq> ''readme.md'')
            \<and> ensure_branch repo disk name readme_content branch files_to_upload w
                = and_then (resolve repo (''heads/'' @ branch)) (\<lambda>r. ret (files_to_upload, r))
                    (s1, tr @ [CreateFile ''README.md'' ''Initial commit: README.md''
                                 (map of_char ''# '' @ name) branch]))
     \<and> truthy readme_content = (\<exists>t. readme_content = Some t \<and> t \<noteq> [])"
proof (intro conjI impI)
  assume a: "readme_content = Some t \<and> t \<noteq> []
        \<and> api_create_file repo ''README.md'' ''Initial commit: README.md'' t branch s0
            = (Inr (), s1)"
  then have "initial_commit repo disk name readme_content branch files_to_upload (s0, tr)
         = (Inr files_to_upload,
            (s1, tr @ [CreateFile ''README.md'' ''Initial commit: README.md'' t branch]))"
    by (intro initial_commit_supplied) blast+
  then show "ensure_branch repo disk name readme_content branch files_to_upload w
          = and_then (resolve repo (''heads/'' @ branch)) (\<lambda>r. ret (files_to_upload, r))
              (s1, tr @ [CreateFile ''README.md'' ''Initial commit: README.md'' t branch])"
    by (simp add: ensure_branch_empty [OF assms] and_then_Inr)
next
  assume a: "\<not> truthy readme_content \<and> find_readme files_to_upload = Some (fp, rp)
          \<and> disk fp = Some content \<and> decode content = Inr decoded
          \<and> api_create_file repo rp (''Initial commit: '' @ rp) decoded branch s0 = (Inr (), s1)"
  then have found: "find_readme files_to_upload = Some (fp, rp)" by blast
  from find_readme_some [OF found]
  show "(fp, rp) \<in> set files_to_upload" and "lower rp = ''readme.md''" by blast+
  show "(fp, rp) \<notin> set (filter (\<lambda>t. t \<noteq> (fp, rp)) files_to_upload)" by simp
  from a have "initial_commit repo disk name readme_content branch files_to_upload (s0, tr)
         = (Inr (filter (\<lambda>t. t \<noteq> (fp, rp)) files_to_upload),
            (s1, tr @ [CreateFile rp (''Initial commit: '' @ rp) decoded branch]))"
    by (intro initial_commit_snapshot) blast+
  then show "ensure_branch repo disk name readme_content branch files_to_upload w
                = and_then (resolve repo (''heads/'' @ branch))
                    (\<lambda>r. ret (filter (\<lambda>t. t \<noteq> (fp, rp)) files_to_upload, r))
                    (s1, tr @ [CreateFile rp (''Initial commit: '' @ rp) decoded branch])"
    by (simp add: ensure_branch_empty [OF assms] and_then_Inr)
next
  assume a: "\<not> truthy readme_content \<and> find_readme files_to_upload = None
          \<and> api_create_file repo ''README.md'' ''Initial commit: README.md''
                (map of_char ''# '' @ name) branch s0 = (Inr (), s1)"
  then have none: "find_readme files_to_upload = None" by blast
  show "\<forall>f \<in> set files_to_upload. lower (snd f) \<noteq> ''readme.md''"
    using find_readme_none [OF none] by auto
  from a have "initial_commit repo disk name readme_content branch files_to_upload (s0, tr)
         = (Inr files_to_upload,
            (s1, tr @ [CreateFile ''README.md'' ''Initial commit: README.md''
                         (map of_char ''# '' @ name) branch]))"
    by (intro initial_commit_placeholder) blast+
  then show "ensure_branch repo disk name readme_content branch files_to_upload w
                = and_then (resolve repo (''heads/'' @ branch)) (\<lambda>r. ret (files_to_upload, r))
                    (s1, tr @ [CreateFile ''README.md'' ''Initial commit: README.md''
                                 (map of_char ''# '' @ name) branch])"
    by (simp add: ensure_branch_empty [OF assms] and_then_Inr)
next
  show "truthy readme_content = (\<exists>t. readme_content = Some t \<and> t \<noteq> [])"
    by (cases readme_content) (simp_all add: truthy_def)
qed

text \<open>
  Claim C5 as stated fails on a repository without commits. A snapshot whose
  \<^verbatim>\<open>README.md\<close> is no UTF-8 text gives no initial commit at all: the decoding
  raises, no \<^verbatim>\<open>create_file\<close> call is issued and the exception leaves the run. And
  when the caller supplies the empty string as README text, it is the content of the
  snapshot's \<^verbatim>\<open>README.md\<close> that is committed.
\<close>

theorem empty_repository_bootstrap_without_commit:
  "find_readme [(''/p/README.md'', ''README.md'')] = Some (''/p/README.md'', ''README.md'')
   \<and> disk2 ''/p/README.md'' = Some [0xFF]
   \<and> ensure_branch (sim_repo ''main'') disk2 [100, 101, 109, 111] None ''main''
         [(''/p/README.md'', ''README.md'')] (empty_remote, [])
       = (Inl (UnicodeDecodeError ''invalid utf-8''), (empty_remote, [GetGitRef ''heads/main'']))
   \<and> snd (snd (ensure_branch (sim_repo ''main'') disk1 [100, 101, 109, 111] (Some []) ''main''
                  [(''/p/README.md'', ''README.md'')] (empty_remote, [])))
       = [GetGitRef ''heads/main'',
          CreateFile ''README.md'' ''Initial commit: README.md'' [35] ''main'',
          GetGitRef ''heads/main'', GetGitCommit ''c'', GetGitTree ''t'']"
  by (simp add: run_defs sim_defs fixture_defs disk2_def lower_def lower_char_def)

text \<open>
  The three cases on a repository without commits: README text \<^verbatim>\<open>Hi\<close> from the
  caller; a snapshot with a readable \<^verbatim>\<open>README.md\<close>; a snapshot without one, for
  the project \<^verbatim>\<open>demo\<close>.
\<close>

theorem empty_repository_bootstrap_witness:
  "resolve (sim_repo ''main'') ''heads/main'' (empty_remote, [])
   = (Inl (GithubException 409 ''409 Git Repository is empty.''),
      (empty_remote, [GetGitRef ''heads/main'']))
   \<and> is_empty_repo (GithubException 409 ''409 Git Repository is empty.'')
   \<and> api_create_file (sim_repo ''main'') ''README.md'' ''Initial commit: README.md'' [72, 105]
         ''main'' empty_remote
       = (Inr (), commit_file ''README.md'' [72, 105] ''main'' empty_remote)
   \<and> ensure_branch (sim_repo ''main'') disk1 [100, 101, 109, 111] (Some [72, 105]) ''main''
         [(''/p/a.txt'', ''a.txt''), (''/p/README.md'', ''README.md'')] (empty_remote, [])
       = (Inr ([(''/p/a.txt'', ''a.txt''), (''/p/README.md'', ''README.md'')],
               GitRef ''heads/main'' ''c'', GitCommit ''c'' ''t'', GitTree ''t''),
          (commit_file ''README.md'' [72, 105] ''main'' empty_remote,
           [GetGitRef ''heads/main'',
            CreateFile ''README.md'' ''Initial commit: README.md'' [72, 105] ''main'',
            GetGitRef ''heads/main'', GetGitCommit ''c'', GetGitTree ''t'']))
   \<and> \<not> truthy None
   \<and> find_readme [(''/p/a.txt'', ''a.txt''), (''/p/README.md'', ''README.md'')]
       = Some (''/p/README.md'', ''README.md'')
   \<and> disk1 ''/p/README.md'' = Some [0x23] \<and> decode [0x23] = Inr [35]
   \<and> ensure_branch (sim_repo ''main'') disk1 [100, 101, 109, 111] None ''main''
         [(''/p/a.txt'', ''a.txt''), (''/p/README.md'', ''README.md'')] (empty_remote, [])
       = (Inr ([(''/p/a.txt'', ''a.txt'')],
               GitRef ''heads/main'' ''c'', GitCommit ''c'' ''t'', GitTree ''t''),
          (commit_file ''README.md'' [35] ''main'' empty_remote,
           [GetGitRef ''heads/main'',
            CreateFile ''README.md'' ''Initial commit: README.md'' [35] ''main'',
            GetGitRef ''heads/main'', GetGitCommit ''c'', GetGitTree ''t'']))
   \<and> find_readme [(''/p/a.txt'', ''a.txt'')] = None
   \<and> ensure_branch (sim_repo ''main'') disk1 [100, 101, 109, 111] None ''main''
         [(''/p/a.txt'', ''a.txt'')] (empty_remote, [])
       = (Inr ([(''/p/a.txt'', ''a.txt'')],
               GitRef ''heads/main'' ''c'', GitCommit ''c'' ''t'', GitTree ''t''),
          (commit_file ''README.md'' [35, 32, 100, 101, 109, 111] ''main'' empty_remote,
           [GetGitRef ''heads/main'',
            CreateFile ''README.md'' ''Initial commit: README.md'' [35, 32, 100, 101, 109, 111]
              ''main'',
            GetGitRef ''heads/main'', GetGitCommit ''c'', GetGitTree ''t'']))"
  using
    empty_repository_bootstrap
      [of "sim_repo ''main''" "''main''" "(empty_remote, [])"
          "GithubException 409 ''409 Git Repository is empty.''" empty_remote
          "[GetGitRef ''heads/main'']" "Some [72, 105]" "[72, 105]"
          "commit_file ''README.md'' [72, 105] ''main'' empty_remote" disk1
          "[100, 101, 109, 111]"
          "[(''/p/a.txt'', ''a.txt''), (''/p/README.md'', ''README.md'')]"]
    empty_repository_bootstrap
      [of "sim_repo ''main''" "''main''" "(empty_remote, [])"
          "GithubException 409 ''409 Git Repository is empty.''" empty_remote
          "[GetGitRef ''heads/main'']" None "[]"
          "commit_file ''README.md'' [35] ''main'' empty_remote" disk1 "[100, 101, 109, 111]"
          "[(''/p/a.txt'', ''a.txt''), (''/p/README.md'', ''README.md'')]"
          "''/p/README.md''" "''README.md''" "[0x23]" "[35]"]
    empty_repository_bootstrap
      [of "sim_repo ''main''" "''main''" "(empty_remote, [])"
          "GithubException 409 ''409 Git Repository is empty.''" empty_remote
          "[GetGitRef ''heads/main'']" None "[]"
          "commit_file ''README.md'' [35, 32, 100, 101, 109, 111] ''main'' empty_remote" disk1
          "[100, 101, 109, 111]" "[(''/p/a.txt'', ''a.txt'')]"]
  by (simp add: run_defs sim_defs fixture_defs disk2_def lower_def lower_char_def)

section \<open>The bootstrap of a missing branch\<close>

lemma appends_resolve: "appends (resolve repo name)"
  by (auto simp: resolve_def intro!: appends_rules)

lemma appends_upload_text: "appends (upload_text repo branch rp content)"
  by (auto simp: upload_text_def intro!: appends_rules)

lemma appends_read_file: "appends (read_file disk fp)"
  by (simp add: read_file_def appends_lift)

lemma appends_process_file: "appends (process_file repo disk branch els f)"
  by (cases f)
     (auto simp: process_file_def intro!: appends_rules appends_upload_text appends_read_file)

lemma appends_commit_binary: "appends (commit_binary repo branch els)"
  by (auto simp: commit_binary_def intro!: appends_rules appends_resolve split: prod.splits)

lemma upload_step_appends:
  "\<exists>ext. snd (snd (upload_step repo disk branch st f w)) = snd w @ ext"
  using appendsD [OF appends_process_file, of repo disk branch "tree_elements st" f w]
  by (auto simp: upload_step_def split: prod.splits sum.splits)

lemma upload_loop_appends:
  "\<exists>ext. snd (snd (upload_loop repo disk branch st fs w)) = snd w @ ext"
proof (induction fs arbitrary: st w)
  case Nil
  then show ?case by simp
next
  case (Cons f fs)
  obtain st1 w1 where step: "upload_step repo disk branch st f w = (st1, w1)"
    by (cases "upload_step repo disk branch st f w")
  from upload_step_appends [of repo disk branch st f w] step
  obtain e1 where e1: "snd w1 = snd w @ e1" by auto
  from Cons.IH [of st1 w1] obtain e2 where
    "snd (snd (upload_loop repo disk branch st1 fs w1)) = snd w1 @ e2" by auto
  with step e1 show ?case by simp
qed

lemma appends_sync: "appends (sync repo disk branch fs)"
  unfolding appends_def
proof
  fix w
  obtain st w1 where loop: "upload_loop repo disk branch initial_state fs w = (st, w1)"
    by (cases "upload_loop repo disk branch initial_state fs w")
  from upload_loop_appends [of repo disk branch initial_state fs w] loop
  obtain e1 where e1: "snd w1 = snd w @ e1" by auto
  have "appends (and_then (commit_binary repo branch (tree_elements st))
          (\<lambda>_. ret \<lparr>files_uploaded = files_uploaded st, files_skipped = files_skipped st\<rparr>))"
    by (intro appends_rules appends_commit_binary)
  from appendsD [OF this, of w1] obtain e2 where
    "snd (snd (and_then (commit_binary repo branch (tree_elements st))
          (\<lambda>_. ret \<lparr>files_uploaded = files_uploaded st, files_skipped = files_skipped st\<rparr>) w1))
     = snd w1 @ e2" by auto
  with loop e1 show "\<exists>ext. snd (snd (sync repo disk branch fs w)) = snd w @ ext"
    by (simp add: sync_def)
qed

lemma ensure_branch_missing:
  assumes "resolve repo (''heads/'' @ branch) w = (Inl e, w0)" "\<not> is_empty_repo e"
  shows "ensure_branch repo disk name readme_content branch fs w
         = and_then (create_branch repo branch) (\<lambda>r. ret (fs, r)) w0"
  using assms by (simp add: ensure_branch_def try_except_def and_then_def)

lemma create_branch_from_main:
  assumes "api_get_git_ref repo ''heads/main'' s0 = (Inr master_ref, s1)"
    "api_create_git_ref repo (''refs/heads/'' @ branch) (object_sha master_ref) s1 = (Inr ref, s2)"
    "api_get_git_commit repo (object_sha master_ref) s2 = (Inr latest_commit, s3)"
    "api_get_git_tree repo (tree_sha latest_commit) s3 = (Inr base_tree, s4)"
  shows "create_branch repo branch (s0, tr)
         = (Inr (ref, latest_commit, base_tree),
            (s4, tr @ [GetGitRef ''heads/main'',
                       CreateGitRef (''refs/heads/'' @ branch) (object_sha master_ref),
                       GetGitCommit (object_sha master_ref),
                       GetGitTree (tree_sha latest_commit)]))"
  using assms
  by (simp add: create_branch_def try_except_def and_then_def ret_def remote_def
      get_git_ref_def create_git_ref_def get_git_commit_def get_git_tree_def)

lemma create_branch_from_default:
  assumes "api_get_git_ref repo ''heads/main'' s0 = (Inl e1, s1)"
    "api_get_git_ref repo (''heads/'' @ default_branch repo) s1 = (Inr master_ref, s2)"
    "api_create_git_ref repo (''refs/heads/'' @ branch) (object_sha master_ref) s2 = (Inr ref, s3)"
    "api_get_git_commit repo (object_sha master_ref) s3 = (Inr latest_commit, s4)"
    "api_get_git_tree repo (tree_sha latest_commit) s4 = (Inr base_tree, s5)"
  shows "create_branch repo branch (s0, tr)
         = (Inr (ref, latest_commit, base_tree),
            (s5, tr @ [GetGitRef ''heads/main'',
                       GetGitRef (''heads/'' @ default_branch repo),
                       CreateGitRef (''refs/heads/'' @ branch) (object_sha master_ref),
                       GetGitCommit (object_sha master_ref),
                       GetGitTree (tree_sha latest_commit)]))"
  using assms
  by (simp add: create_branch_def try_except_def and_then_def ret_def remote_def
      get_git_ref_def create_git_ref_def get_git_commit_def get_git_tree_def)

text \<open>
  Claim C6, as amended. Let the first resolution of the branch raise anything but the
  empty-repository signal. Then the handler first asks for the ref \<^verbatim>\<open>heads/main\<close>
  and, when it gets it, creates the target branch ref at the commit \<^verbatim>\<open>main\<close>
  points at; only when that lookup raises does it ask for the ref of the repository's
  default branch and create the target branch ref at that commit. In both cases the upload
  of the files starts after the creation of the ref, and only appends calls.
\<close>

theorem missing_branch_from_main_else_default:
  assumes "resolve repo (''heads/'' @ branch) w = (Inl e, (s0, tr))" and "\<not> is_empty_repo e"
  shows
    "(api_get_git_ref repo ''heads/main'' s0 = (Inr master_ref, s1)
        \<and> api_create_git_ref repo (''refs/heads/'' @ branch) (object_sha master_ref) s1
            = (Inr ref, s2)
        \<and> api_get_git_commit repo (object_sha master_ref) s2 = (Inr latest_commit, s3)
        \<and> api_get_git_tree repo (tree_sha latest_commit) s3 = (Inr base_tree, s4)
      \<longrightarrow> upload_collected repo disk name readme_content branch files_to_upload w
          = sync repo disk branch files_to_upload
              (s4, tr @ [GetGitRef ''heads/main'',
                         CreateGitRef (''refs/heads/'' @ branch) (object_sha master_ref),
                         GetGitCommit (object_sha master_ref),
                         GetGitTree (tree_sha latest_commit)]))
     \<and> (api_get_git_ref repo ''heads/main'' s0 = (Inl e1, s1)
          \<and> api_get_git_ref repo (''heads/'' @ default_branch repo) s1 = (Inr master_ref, s2)
          \<and> api_create_git_ref repo (''refs/heads/'' @ branch) (object_sha master_ref) s2
              = (Inr ref, s3)
          \<and> api_get_git_commit repo (object_sha master_ref) s3 = (Inr latest_commit, s4)
          \<and> api_get_git_tree repo (tree_sha latest_commit) s4 = (Inr base_tree, s5)
        \<longrightarrow> upload_collected repo disk name readme_content branch files_to_upload w
            = sync repo disk branch files_to_upload
                (s5, tr @ [GetGitRef ''heads/main'',
                           GetGitRef (''heads/'' @ default_branch repo),
                           CreateGitRef (''refs/heads/'' @ branch) (object_sha master_ref),
                           GetGitCommit (object_sha master_ref),
                           GetGitTree (tree_sha latest_commit)]))
     \<and> appends (sync repo disk branch files_to_upload)"
proof (intro conjI impI)
  assume a: "api_get_git_ref repo ''heads/main'' s0 = (Inr master_ref, s1)
        \<and> api_create_git_ref repo (''refs/heads/'' @ branch) (object_sha master_ref) s1
            = (Inr ref, s2)
        \<and> api_get_git_commit repo (object_sha master_ref) s2 = (Inr latest_commit, s3)
        \<and> api_get_git_tree repo (tree_sha latest_commit) s3 = (Inr base_tree, s4)"
  then have "create_branch repo branch (s0, tr)
         = (Inr (ref, latest_commit, base_tree),
            (s4, tr @ [GetGitRef ''heads/main'',
                       CreateGitRef (''refs/heads/'' @ branch) (object_sha master_ref),
                       GetGitCommit (object_sha master_ref),
                       GetGitTree (tree_sha latest_commit)]))"
    by (intro create_branch_from_main) blast+
  then show "upload_collected repo disk name readme_content branch files_to_upload w
          = sync repo disk branch files_to_upload
              (s4, tr @ [GetGitRef ''heads/main'',
                         CreateGitRef (''refs/heads/'' @ branch) (object_sha master_ref),
                         GetGitCommit (object_sha master_ref),
                         GetGitTree (tree_sha latest_commit)])"
    by (simp add: upload_collected_def ensure_branch_missing [OF assms] and_then_def ret_def)
next
  assume a: "api_get_git_ref repo ''heads/main'' s0 = (Inl e1, s1)
          \<and> api_get_git_ref repo (''heads/'' @ default_branch repo) s1 = (Inr master_ref, s2)
          \<and> api_create_git_ref repo (''refs/heads/'' @ branch) (object_sha master_ref) s2
              = (Inr ref, s3)
          \<and> api_get_git_commit repo (object_sha master_ref) s3 = (Inr latest_commit, s4)
          \<and> api_get_git_tree repo (tree_sha latest_commit) s4 = (Inr base_tree, s5)"
  then have "create_branch repo branch (s0, tr)
         = (Inr (ref, latest_commit, base_tree),
            (s5, tr @ [GetGitRef ''heads/main'',
                       GetGitRef (''heads/'' @ default_branch repo),
                       CreateGitRef (''refs/heads/'' @ branch) (object_sha master_ref),
                       GetGitCommit (object_sha master_ref),
                       GetGitTree (tree_sha latest_commit)]))"
    by (intro create_branch_from_default) blast+
  then show "upload_collected repo disk name readme_content branch files_to_upload w
            = sync repo disk branch files_to_upload
                (s5, tr @ [GetGitRef ''heads/main'',
                           GetGitRef (''heads/'' @ default_branch repo),
                           CreateGitRef (''refs/heads/'' @ branch) (object_sha master_ref),
                           GetGitCommit (object_sha master_ref),
                           GetGitTree (tree_sha latest_commit)])"
    by (simp add: upload_collected_def ensure_branch_missing [OF assms] and_then_def ret_def)
next
  show "appends (sync repo disk branch files_to_upload)" by (rule appends_sync)
qed

text \<open>
  Claim C6 as stated fails: on a repository whose default branch \<^verbatim>\<open>develop\<close> has
  the head \<^verbatim>\<open>cd\<close> and whose branch \<^verbatim>\<open>main\<close> has the head \<^verbatim>\<open>cm\<close>,
  the missing branch \<^verbatim>\<open>feature\<close> is created at \<^verbatim>\<open>cm\<close>, and no ref is
  created at the head of the default branch.
\<close>

theorem branch_created_from_main_not_from_default:
  "default_branch (sim_repo ''develop'') = ''develop''
   \<and> api_get_git_ref (sim_repo ''develop'') ''heads/develop'' two_heads
       = (Inr (GitRef ''heads/develop'' ''cd''), two_heads)
   \<and> api_get_git_ref (sim_repo ''develop'') ''heads/feature'' two_heads
       = (Inl not_found, two_heads)
   \<and> \<not> is_empty_repo not_found
   \<and> snd (snd (ensure_branch (sim_repo ''develop'') disk1 [100, 101, 109, 111] None ''feature''
                  [(''/p/a.txt'', ''a.txt'')] (two_heads, [])))
       = [GetGitRef ''heads/feature'', GetGitRef ''heads/main'',
          CreateGitRef ''refs/heads/feature'' ''cm'', GetGitCommit ''cm'', GetGitTree ''tm'']
   \<and> CreateGitRef ''refs/heads/feature'' ''cd''
       \<notin> set (snd (snd (upload_collected (sim_repo ''develop'') disk1 [100, 101, 109, 111] None ''feature''
                           [(''/p/a.txt'', ''a.txt'')] (two_heads, []))))"
  by (simp add: run_defs sim_defs fixture_defs two_heads_def not_found_def is_empty_repo_def)

text \<open>
  Both cases: the branch is created from \<^verbatim>\<open>main\<close> where it exists, and from the
  default branch \<^verbatim>\<open>develop\<close> where \<^verbatim>\<open>main\<close> is missing.
\<close>

theorem missing_branch_from_main_else_default_witness:
  "resolve (sim_repo ''develop'') ''heads/feature'' (two_heads, [])
   = (Inl not_found, (two_heads, [GetGitRef ''heads/feature'']))
   \<and> \<not> is_empty_repo not_found
   \<and> api_get_git_ref (sim_repo ''develop'') ''heads/main'' two_heads
       = (Inr (GitRef ''heads/main'' ''cm''), two_heads)
   \<and> api_create_git_ref (sim_repo ''develop'') ''refs/heads/feature'' ''cm'' two_heads
       = (Inr (GitRef ''refs/heads/feature'' ''cm''),
          two_heads\<lparr>heads := (''heads/feature'', ''cm'') # heads two_heads\<rparr>)
   \<and> upload_collected (sim_repo ''develop'') disk1 [100, 101, 109, 111] None ''feature''
         [(''/p/a.txt'', ''a.txt'')] (two_heads, [])
       = sync (sim_repo ''develop'') disk1 ''feature'' [(''/p/a.txt'', ''a.txt'')]
           (two_heads\<lparr>heads := (''heads/feature'', ''cm'') # heads two_heads\<rparr>,
            [GetGitRef ''heads/feature'', GetGitRef ''heads/main'',
             CreateGitRef ''refs/heads/feature'' ''cm'', GetGitCommit ''cm'', GetGitTree ''tm''])
   \<and> resolve (sim_repo ''develop'') ''heads/feature'' (no_main, [])
       = (Inl not_found, (no_main, [GetGitRef ''heads/feature'']))
   \<and> api_get_git_ref (sim_repo ''develop'') ''heads/main'' no_main = (Inl not_found, no_main)
   \<and> api_get_git_ref (sim_repo ''develop'') ''heads/develop'' no_main
       = (Inr (GitRef ''heads/develop'' ''cd''), no_main)
   \<and> upload_collected (sim_repo ''develop'') disk1 [100, 101, 109, 111] None ''feature''
         [(''/p/a.txt'', ''a.txt'')] (no_main, [])
       = sync (sim_repo ''develop'') disk1 ''feature'' [(''/p/a.txt'', ''a.txt'')]
           (no_main\<lparr>heads := (''heads/feature'', ''cd'') # heads no_main\<rparr>,
            [GetGitRef ''heads/feature'', GetGitRef ''heads/main'', GetGitRef ''heads/develop'',
             CreateGitRef ''refs/heads/feature'' ''cd'', GetGitCommit ''cd'', GetGitTree ''td''])"
  using
    missing_branch_from_main_else_default
      [of "sim_repo ''develop''" "''feature''" "(two_heads, [])" not_found two_heads
          "[GetGitRef ''heads/feature'']" "GitRef ''heads/main'' ''cm''" two_heads
          "GitRef ''refs/heads/feature'' ''cm''"
          "two_heads\<lparr>heads := (''heads/feature'', ''cm'') # heads two_heads\<rparr>"
          "GitCommit ''cm'' ''tm''"
          "two_heads\<lparr>heads := (''heads/feature'', ''cm'') # heads two_heads\<rparr>"
          "GitTree ''tm''"
          "two_heads\<lparr>heads := (''heads/feature'', ''cm'') # heads two_heads\<rparr>"
          disk1 "[100, 101, 109, 111]" None "[(''/p/a.txt'', ''a.txt'')]"]
    missing_branch_from_main_else_default
      [of "sim_repo ''develop''" "''feature''" "(no_main, [])" not_found no_main
          "[GetGitRef ''heads/feature'']" "GitRef ''heads/develop'' ''cd''" no_main
          "GitRef ''refs/heads/feature'' ''cd''" no_main
          "GitCommit ''cd'' ''td''"
          "no_main\<lparr>heads := (''heads/feature'', ''cd'') # heads no_main\<rparr>"
          "GitTree ''td''"
          "no_main\<lparr>heads := (''heads/feature'', ''cd'') # heads no_main\<rparr>"
          disk1 "[100, 101, 109, 111]" None "[(''/p/a.txt'', ''a.txt'')]" not_found
          "no_main\<lparr>heads := (''heads/feature'', ''cd'') # heads no_main\<rparr>"]
  by (simp add: resolve_def and_then_def try_except_def ret_def remote_def get_git_ref_def
      sim_defs two_heads_def no_main_def not_found_def is_empty_repo_def)

section \<open>Text files are written on every run\<close>


lemma step_text_created:
  assumes "disk fp = Some content" "is_binary content = Inr False" "decode content = Inr decoded"
    "api_get_contents repo rp branch s = (Inl e, s1)" "is_not_found e"
    "api_create_file repo rp (''Add '' @ rp) decoded branch s1 = (Inr (), s2)"
  shows "upload_step repo disk branch st (fp, rp) (s, tr)
         = (st\<lparr>files_uploaded := files_uploaded st + 1\<rparr>,
            (s2, tr @ [GetContents rp branch, CreateFile rp (''Add '' @ rp) decoded branch]))"
  using assms
  by (simp add: upload_step_def process_file_def read_file_def lift_def and_then_def ret_def
      upload_text_def try_except_def get_contents_def create_file_def remote_def)









section \<open>\<^verbatim>\<open>deploy_project\<close> reports success once the bootstrap is done\<close>

lemma get_or_create_repo_returns:
  "\<exists>found. fst (get_or_create_repo cl repo_name description private w) = Inr found"
  by (auto simp: get_or_create_repo_def try_except_def and_then_def ret_def
      split: prod.splits sum.splits)

text \<open>
  Claim C10. Let the analysis give the project information, let the repository be found
  or created, let the collection of the files succeed and let the bootstrap of the branch
  return. Then \<^verbatim>\<open>deploy_project\<close> returns, raising nothing, the success result with
  the URL of the repository, its name, the branch, the visibility and the two counters
  of the loop, which together count every remaining file; no failure of a file and no
  failure of the final commit changes that.
\<close>

theorem deploy_succeeds_after_bootstrap:
  assumes "analysis = Inr info"
    and "get_or_create_repo cl (repo_name_of isalnum (info_name info)) (info_description info) private w
         = (Inr (Some repo), w1)"
    and "collect p = Inr files_to_upload"
    and "ensure_branch repo disk (project_name p) readme_content branch files_to_upload w1
         = (Inr (remaining, r), w2)"
    and "upload_loop repo disk branch initial_state remaining w2 = (st, w3)"
  shows "fst (deploy_project isalnum cl analysis p disk readme_content branch private w)
         = Inr (Succeeded (html_url repo) (repo_name_of isalnum (info_name info)) branch private
                  (files_uploaded st) (files_skipped st))
         \<and> success (Succeeded (html_url repo) (repo_name_of isalnum (info_name info)) branch private
                      (files_uploaded st) (files_skipped st))
         \<and> files_uploaded st + files_skipped st = length remaining"
proof -
  obtain u w4 where sy: "sync repo disk branch remaining w2 = (u, w4)"
    by (cases "sync repo disk branch remaining w2")
  from sync_result [OF assms(5)] sy
  have u: "u = Inr \<lparr>files_uploaded = files_uploaded st, files_skipped = files_skipped st\<rparr>"
    by simp
  from assms(3,4) sy u
  have "upload_files repo p disk readme_content branch w1
        = (Inr \<lparr>files_uploaded = files_uploaded st, files_skipped = files_skipped st\<rparr>, w4)"
    by (simp add: upload_files_def upload_collected_def and_then_def lift_def)
  with assms(1,2)
  have "fst (deploy_project isalnum cl analysis p disk readme_content branch private w)
         = Inr (Succeeded (html_url repo) (repo_name_of isalnum (info_name info)) branch private
                  (files_uploaded st) (files_skipped st))"
    by (simp add: deploy_project_def and_then_def lift_def ret_def)
  moreover from upload_loop_counts [OF assms(5)]
  have "files_uploaded st + files_skipped st = length remaining"
    by (simp add: initial_state_def)
  ultimately show ?thesis by simp
qed

text \<open>
  A project of a text file and a binary file, on a remote whose lookups and blob
  creations fail: both files are skipped, none is uploaded, and the result is the success
  result.
\<close>

theorem deploy_succeeds_after_bootstrap_witness:
  "repo_name_of ascii_alnum (info_name demo_info) = [77, 121, 45, 100, 101, 109, 111, 45, 49]
   \<and> get_or_create_repo (sim_client ''main'') [77, 121, 45, 100, 101, 109, 111, 45, 49]
         [65, 32, 100, 101, 109, 111] False (offline, [])
       = (Inr (Some (sim_repo ''main'')),
          (offline, [GetRepo [77, 121, 45, 100, 101, 109, 111, 45, 49]]))
   \<and> collect demo_project = Inr [(''/p/a.txt'', ''a.txt''), (''/p/b.bin'', ''b.bin'')]
   \<and> ensure_branch (sim_repo ''main'') disk1 [112] None ''main''
         [(''/p/a.txt'', ''a.txt''), (''/p/b.bin'', ''b.bin'')]
         (offline, [GetRepo [77, 121, 45, 100, 101, 109, 111, 45, 49]])
       = (Inr ([(''/p/a.txt'', ''a.txt''), (''/p/b.bin'', ''b.bin'')],
               GitRef ''heads/main'' ''c0'', GitCommit ''c0'' ''t0'', GitTree ''t0''),
          (offline, [GetRepo [77, 121, 45, 100, 101, 109, 111, 45, 49],
                     GetGitRef ''heads/main'', GetGitCommit ''c0'', GetGitTree ''t0'']))
   \<and> upload_loop (sim_repo ''main'') disk1 ''main'' initial_state
         [(''/p/a.txt'', ''a.txt''), (''/p/b.bin'', ''b.bin'')]
         (offline, [GetRepo [77, 121, 45, 100, 101, 109, 111, 45, 49],
                    GetGitRef ''heads/main'', GetGitCommit ''c0'', GetGitTree ''t0''])
       = (\<lparr>files_uploaded = 0, files_skipped = 2, tree_elements = []\<rparr>,
          (offline, [GetRepo [77, 121, 45, 100, 101, 109, 111, 45, 49],
                     GetGitRef ''heads/main'', GetGitCommit ''c0'', GetGitTree ''t0'',
                     GetContents ''a.txt'' ''main'', CreateGitBlob ''AAE='' ''base64'']))
   \<and> fst (deploy_project ascii_alnum (sim_client ''main'') (Inr demo_info) demo_project disk1
            None ''main'' False (offline, []))
       = Inr (Succeeded ''https://github.com/octocat/demo''
                [77, 121, 45, 100, 101, 109, 111, 45, 49] ''main'' False 0 2)
   \<and> success (Succeeded ''https://github.com/octocat/demo''
                [77, 121, 45, 100, 101, 109, 111, 45, 49] ''main'' False 0 2)"
  using deploy_succeeds_after_bootstrap
    [of "Inr demo_info" demo_info "sim_client ''main''" ascii_alnum False "(offline, [])"
       "sim_repo ''main''" "(offline, [GetRepo [77, 121, 45, 100, 101, 109, 111, 45, 49]])"
       demo_project "[(''/p/a.txt'', ''a.txt''), (''/p/b.bin'', ''b.bin'')]" disk1 None "''main''"
       "[(''/p/a.txt'', ''a.txt''), (''/p/b.bin'', ''b.bin'')]"
       "(GitRef ''heads/main'' ''c0'', GitCommit ''c0'' ''t0'', GitTree ''t0'')"
       "(offline, [GetRepo [77, 121, 45, 100, 101, 109, 111, 45, 49],
                   GetGitRef ''heads/main'', GetGitCommit ''c0'', GetGitTree ''t0''])"
       "\<lparr>files_uploaded = 0, files_skipped = 2, tree_elements = []\<rparr>"
       "(offline, [GetRepo [77, 121, 45, 100, 101, 109, 111, 45, 49],
                   GetGitRef ''heads/main'', GetGitCommit ''c0'', GetGitTree ''t0'',
                   GetContents ''a.txt'' ''main'', CreateGitBlob ''AAE='' ''base64''])"]
  by (simp add: run_defs sim_defs fixture_defs demo_project_def demo_info_def repo_name_of_def
      ascii_alnum_def get_or_create_repo_def sim_client_def collect_def join_def
      EXCLUDE_PATTERNS_def MAX_FILE_SIZE_def transport_def not_found_def is_not_found_def)

section \<open>The collector keeps to the rules\<close>

lemma scan_files_sound:
  "scan_files root rel es = Inr found \<Longrightarrow> f \<in> set found
   \<Longrightarrow> \<exists>name sz. File name (Some sz) \<in> set es \<and> sz \<le> MAX_FILE_SIZE \<and> admitted name
         \<and> f = (join root name, join rel name)"
proof (induction es arbitrary: found)
  case Nil
  then show ?case by simp
next
  case (Cons e es)
  have skip_entry: ?case if "scan_files root rel es = Inr found"
  proof -
    from Cons.IH [OF that Cons.prems(2)] obtain name sz where
      "File name (Some sz) \<in> set es" "sz \<le> MAX_FILE_SIZE" "admitted name"
      "f = (join root name, join rel name)" by blast
    then show ?thesis by (intro exI [of _ name] exI [of _ sz]) simp
  qed
  show ?case
  proof (cases e)
    case (Dir d ch)
    with Cons.prems(1) show ?thesis by (intro skip_entry) simp
  next
    case (File fname st_size)
    show ?thesis
    proof (cases "starts_with ''.'' fname \<or> fname \<in> set EXCLUDE_PATTERNS")
      case True
      with File Cons.prems(1) show ?thesis by (intro skip_entry) simp
    next
      case False
      with File Cons.prems(1) obtain sz where sz: "st_size = Some sz"
        by (cases st_size) simp_all
      show ?thesis
      proof (cases "sz > MAX_FILE_SIZE")
        case True
        with False File sz Cons.prems(1) show ?thesis by (intro skip_entry) simp
      next
        case small: False
        with False File sz Cons.prems(1) obtain rest where
          rest: "scan_files root rel es = Inr rest"
          and found: "found = (join root fname, join rel fname) # rest"
          by (cases "scan_files root rel es") simp_all
        show ?thesis
        proof (cases "f = (join root fname, join rel fname)")
          case True
          with False File sz small show ?thesis
            by (intro exI [of _ fname] exI [of _ sz]) (simp add: admitted_def)
        next
          case other: False
          with found Cons.prems(2) have "f \<in> set rest" by simp
          from Cons.IH [OF rest this] obtain name sz' where
            "File name (Some sz') \<in> set es" "sz' \<le> MAX_FILE_SIZE" "admitted name"
            "f = (join root name, join rel name)" by blast
          then show ?thesis by (intro exI [of _ name] exI [of _ sz']) simp
        qed
      qed
    qed
  qed
qed

lemma scan_files_eligible:
  assumes "scan_files root rel es = Inr found" "f \<in> set found"
  shows "eligible root rel es f"
proof -
  from scan_files_sound [OF assms] obtain name sz where
    "File name (Some sz) \<in> set es" "sz \<le> MAX_FILE_SIZE" "admitted name"
    "f = (join root name, join rel name)" by blast
  then show ?thesis
    unfolding eligible_def
    by (intro exI [of _ "[name]"] exI [of _ sz]) (simp add: file_at.here)
qed

lemma eligible_below:
  assumes "Dir d ch \<in> set es" "admitted d" "eligible (join root d) (join rel d) ch f"
  shows "eligible root rel es f"
proof -
  from assms(3) obtain names sz where
    h: "file_at ch names (Some sz)" "sz \<le> MAX_FILE_SIZE" "list_all admitted names"
       "fst f = foldl join (join root d) names" "snd f = foldl join (join rel d) names"
    unfolding eligible_def by blast
  from file_at.below [OF assms(1) h(1)] h(2-5) assms(2) show ?thesis
    unfolding eligible_def
    by (intro exI [of _ "d # names"] exI [of _ sz]) simp
qed

lemma file_at_tail: "file_at es names st_size \<Longrightarrow> file_at (e # es) names st_size"
proof (induction rule: file_at.induct)
  case (here name st_size es)
  then have "File name st_size \<in> set (e # es)" by simp
  then show ?case by (rule file_at.here)
next
  case (below d ch es names st_size)
  then have "Dir d ch \<in> set (e # es)" by simp
  from this below.hyps(2) show ?case by (rule file_at.below)
qed

lemma eligible_tail:
  assumes "eligible root rel es f"
  shows "eligible root rel (e # es) f"
proof -
  from assms obtain names sz where
    h: "file_at es names (Some sz)" "sz \<le> MAX_FILE_SIZE" "list_all admitted names"
       "fst f = foldl join root names" "snd f = foldl join rel names"
    unfolding eligible_def by blast
  from file_at_tail [OF h(1), of e] h(2-5) show ?thesis
    unfolding eligible_def by blast
qed

lemma walk_sound:
  "walk root rel es = Inr found \<Longrightarrow> f \<in> set found \<Longrightarrow> eligible root rel es f"
  "walk_dirs root rel es = Inr found \<Longrightarrow> f \<in> set found \<Longrightarrow> eligible root rel es f"
proof (induction root rel es and root rel es arbitrary: found and found
       rule: walk_walk_dirs.induct)
  case (1 root rel es)
  from "1.prems"(1) obtain here_files where h1: "scan_files root rel es = Inr here_files"
    by (cases "scan_files root rel es") simp_all
  with "1.prems"(1) obtain below_files where h2: "walk_dirs root rel es = Inr below_files"
    by (cases "walk_dirs root rel es") simp_all
  with h1 "1.prems"(1) have h3: "found = here_files @ below_files" by simp
  with "1.prems"(2) consider "f \<in> set here_files" | "f \<in> set below_files" by auto
  then show ?case
  proof cases
    case 1
    with h1 show ?thesis by (rule scan_files_eligible)
  next
    case 2
    from "1.IH" [OF h1 h2 2] show ?thesis .
  qed
next
  case (2 root rel)
  then show ?case by simp
next
  case (3 root rel fname st_size es)
  from "3.prems"(1) have "walk_dirs root rel es = Inr found" by simp
  from "3.IH" [OF this "3.prems"(2)] show ?case by (rule eligible_tail)
next
  case (4 root rel d ch es)
  show ?case
  proof (cases "d \<notin> set EXCLUDE_PATTERNS \<and> \<not> starts_with ''.'' d")
    case False
    with "4.prems"(1) have "walk_dirs root rel es = Inr found" by simp
    from "4.IH"(3) [OF False this "4.prems"(2)] show ?thesis by (rule eligible_tail)
  next
    case True
    with "4.prems"(1) obtain first where h1: "walk (join root d) (join rel d) ch = Inr first"
      by (cases "walk (join root d) (join rel d) ch") simp_all
    with True "4.prems"(1) obtain rest where h2: "walk_dirs root rel es = Inr rest"
      by (cases "walk_dirs root rel es") simp_all
    with True h1 "4.prems"(1) have h3: "found = first @ rest" by simp
    with "4.prems"(2) consider "f \<in> set first" | "f \<in> set rest" by auto
    then show ?thesis
    proof cases
      case 1
      from "4.IH"(1) [OF True h1 1] have inner: "eligible (join root d) (join rel d) ch f" .
      have "Dir d ch \<in> set (Dir d ch # es)" by simp
      moreover from True have "admitted d" by (simp add: admitted_def)
      ultimately show ?thesis using inner by (rule eligible_below)
    next
      case 2
      from "4.IH"(2) [OF True h1 h2 2] show ?thesis by (rule eligible_tail)
    qed
  qed
qed

section \<open>The run names only collected files\<close>

lemma keeps_toD:
  "keeps_to S m \<Longrightarrow> \<exists>ext. snd (snd (m w)) = snd w @ ext \<and> (\<forall>c \<in> set ext. set (call_paths c) \<subseteq> S)"
  unfolding keeps_to_def by blast

lemma keeps_to_ret: "keeps_to S (ret a)"
  by (simp add: keeps_to_def ret_def)

lemma keeps_to_raise: "keeps_to S (raise e)"
  by (simp add: keeps_to_def raise_def)

lemma keeps_to_lift: "keeps_to S (lift r)"
  by (simp add: keeps_to_def lift_def)

lemma keeps_to_remote: "set (call_paths c) \<subseteq> S \<Longrightarrow> keeps_to S (remote c f)"
  by (simp add: keeps_to_def remote_def split: prod.splits)

lemma keeps_to_and_then:
  assumes "keeps_to S m" and "\<And>a. keeps_to S (f a)"
  shows "keeps_to S (and_then m f)"
  unfolding keeps_to_def
proof
  fix w
  obtain r w1 where mw: "m w = (r, w1)" by (cases "m w")
  from keeps_toD [OF assms(1), of w] mw obtain e1 where
    e1: "snd w1 = snd w @ e1" "\<forall>c \<in> set e1. set (call_paths c) \<subseteq> S" by auto
  show "\<exists>ext. snd (snd (and_then m f w)) = snd w @ ext
              \<and> (\<forall>c \<in> set ext. set (call_paths c) \<subseteq> S)"
  proof (cases r)
    case (Inl e)
    with mw e1 show ?thesis by (simp add: and_then_def)
  next
    case (Inr a)
    from keeps_toD [OF assms(2) [of a], of w1] obtain e2 where
      e2: "snd (snd (f a w1)) = snd w1 @ e2" "\<forall>c \<in> set e2. set (call_paths c) \<subseteq> S" by auto
    from e1 e2 have "snd (snd (f a w1)) = snd w @ (e1 @ e2)"
      and "\<forall>c \<in> set (e1 @ e2). set (call_paths c) \<subseteq> S" by auto
    with mw Inr show ?thesis unfolding and_then_def by (simp only: prod.case sum.case) blast
  qed
qed

lemma keeps_to_try_except:
  assumes "keeps_to S m" and "\<And>e. keeps_to S (h e)"
  shows "keeps_to S (try_except m h)"
  unfolding keeps_to_def
proof
  fix w
  obtain r w1 where mw: "m w = (r, w1)" by (cases "m w")
  from keeps_toD [OF assms(1), of w] mw obtain e1 where
    e1: "snd w1 = snd w @ e1" "\<forall>c \<in> set e1. set (call_paths c) \<subseteq> S" by auto
  show "\<exists>ext. snd (snd (try_except m h w)) = snd w @ ext
              \<and> (\<forall>c \<in> set ext. set (call_paths c) \<subseteq> S)"
  proof (cases r)
    case (Inr a)
    with mw e1 show ?thesis by (simp add: try_except_def)
  next
    case (Inl e)
    from keeps_toD [OF assms(2) [of e], of w1] obtain e2 where
      e2: "snd (snd (h e w1)) = snd w1 @ e2" "\<forall>c \<in> set e2. set (call_paths c) \<subseteq> S" by auto
    from e1 e2 have "snd (snd (h e w1)) = snd w @ (e1 @ e2)"
      and "\<forall>c \<in> set (e1 @ e2). set (call_paths c) \<subseteq> S" by auto
    with mw Inl show ?thesis unfolding try_except_def by (simp only: prod.case sum.case) blast
  qed
qed

lemma keeps_to_calls:
  "keeps_to S (get_git_ref repo n)"
  "keeps_to S (get_git_commit repo n)"
  "keeps_to S (get_git_tree repo n)"
  "keeps_to S (create_git_ref repo n sh)"
  "p \<in> S \<Longrightarrow> keeps_to S (create_file repo p m t b)"
  "p \<in> S \<Longrightarrow> keeps_to S (update_file repo p m t sh b)"
  "p \<in> S \<Longrightarrow> keeps_to S (get_contents repo p b)"
  "keeps_to S (create_git_blob repo n b)"
  "el_path ` set els \<subseteq> S \<Longrightarrow> keeps_to S (create_git_tree repo els bt)"
  "keeps_to S (create_git_commit repo m nt ps)"
  "keeps_to S (edit_ref repo rf sh)"
  by (simp_all add: get_git_ref_def get_git_commit_def get_git_tree_def create_git_ref_def
      create_file_def update_file_def get_contents_def create_git_blob_def create_git_tree_def
      create_git_commit_def edit_ref_def keeps_to_remote call_paths_def)

lemmas keeps_to_rules =
  keeps_to_ret keeps_to_raise keeps_to_lift keeps_to_and_then keeps_to_try_except keeps_to_calls

lemma keeps_to_resolve: "keeps_to S (resolve repo name)"
  unfolding resolve_def by (intro keeps_to_rules)

lemma keeps_to_upload_text: "rp \<in> S \<Longrightarrow> keeps_to S (upload_text repo branch rp content)"
  unfolding upload_text_def by (auto intro!: keeps_to_rules)

lemma keeps_to_read_file: "keeps_to S (read_file disk fp)"
  by (simp add: read_file_def keeps_to_lift)

lemma keeps_to_process_file:
  "snd f \<in> S \<Longrightarrow> keeps_to S (process_file repo disk branch els f)"
  by (cases f)
     (auto simp: process_file_def intro!: keeps_to_rules keeps_to_upload_text keeps_to_read_file)

lemma process_file_staged:
  assumes "process_file repo disk branch els f w = (Inr staged, w')"
  shows "el_path ` set staged \<subseteq> insert (snd f) (el_path ` set els)"
proof -
  obtain fp rp where f: "f = (fp, rp)" by (cases f)
  show ?thesis
  proof (cases "disk fp")
    case None
    with assms f show ?thesis
      by (simp add: process_file_def read_file_def lift_def and_then_def)
  next
    case (Some content)
    show ?thesis
    proof (cases "is_binary content")
      case (Inl e)
      with assms f Some show ?thesis
        by (simp add: process_file_def read_file_def lift_def and_then_def)
    next
      case (Inr is_bin)
      show ?thesis
      proof (cases is_bin)
        case True
        with assms f Some Inr show ?thesis
          by (auto simp: process_file_def read_file_def lift_def and_then_def ret_def
              split: prod.splits sum.splits)
      next
        case False
        with assms f Some Inr show ?thesis
          by (auto simp: process_file_def read_file_def lift_def and_then_def ret_def
              split: prod.splits sum.splits)
      qed
    qed
  qed
qed

lemma upload_step_keeps_to:
  assumes "snd f \<in> S" "el_path ` set (tree_elements st) \<subseteq> S"
    "upload_step repo disk branch st f w = (st', w')"
  shows "el_path ` set (tree_elements st') \<subseteq> S
         \<and> (\<exists>ext. snd w' = snd w @ ext \<and> (\<forall>c \<in> set ext. set (call_paths c) \<subseteq> S))"
proof -
  obtain r w1 where pf: "process_file repo disk branch (tree_elements st) f w = (r, w1)"
    by (cases "process_file repo disk branch (tree_elements st) f w")
  from keeps_toD [OF keeps_to_process_file [OF assms(1)], of repo disk branch
      "tree_elements st" w] pf
  obtain ext where ext: "snd w1 = snd w @ ext" "\<forall>c \<in> set ext. set (call_paths c) \<subseteq> S" by auto
  show ?thesis
  proof (cases r)
    case (Inl e)
    with pf assms(3) have "st' = skip st" "w' = w1" by (simp_all add: upload_step_def skip_def)
    with assms(2) ext show ?thesis by (auto simp: skip_def)
  next
    case (Inr staged)
    with pf assms(3) have eq: "tree_elements st' = staged" "w' = w1"
      by (auto simp: upload_step_def)
    from process_file_staged pf Inr
    have "el_path ` set staged \<subseteq> insert (snd f) (el_path ` set (tree_elements st))" by blast
    moreover from assms(1,2) have "insert (snd f) (el_path ` set (tree_elements st)) \<subseteq> S"
      by simp
    ultimately have "el_path ` set staged \<subseteq> S" by (rule order_trans)
    with eq ext show ?thesis by (intro conjI exI [of _ ext]) simp_all
  qed
qed

lemma upload_loop_keeps_to:
  assumes "snd ` set fs \<subseteq> S" "el_path ` set (tree_elements st) \<subseteq> S"
    "upload_loop repo disk branch st fs w = (st', w')"
  shows "el_path ` set (tree_elements st') \<subseteq> S
         \<and> (\<exists>ext. snd w' = snd w @ ext \<and> (\<forall>c \<in> set ext. set (call_paths c) \<subseteq> S))"
  using assms
proof (induction fs arbitrary: st w)
  case Nil
  then show ?case by simp
next
  case (Cons f fs)
  obtain st1 w1 where step: "upload_step repo disk branch st f w = (st1, w1)"
    by (cases "upload_step repo disk branch st f w")
  with Cons.prems(3) have rest: "upload_loop repo disk branch st1 fs w1 = (st', w')" by simp
  from Cons.prems(1) have f: "snd f \<in> S" and fs: "snd ` set fs \<subseteq> S" by auto
  from upload_step_keeps_to [OF f Cons.prems(2) step] obtain e1 where
    s1: "el_path ` set (tree_elements st1) \<subseteq> S" "snd w1 = snd w @ e1"
        "\<forall>c \<in> set e1. set (call_paths c) \<subseteq> S" by blast
  from Cons.IH [OF fs s1(1) rest] obtain e2 where
    s2: "el_path ` set (tree_elements st') \<subseteq> S" "snd w' = snd w1 @ e2"
        "\<forall>c \<in> set e2. set (call_paths c) \<subseteq> S" by blast
  from s1 s2 have "snd w' = snd w @ (e1 @ e2)"
    and "\<forall>c \<in> set (e1 @ e2). set (call_paths c) \<subseteq> S" by auto
  with s2(1) show ?case by blast
qed

lemma keeps_to_commit_binary:
  "el_path ` set els \<subseteq> S \<Longrightarrow> keeps_to S (commit_binary repo branch els)"
  unfolding commit_binary_def
  by (auto intro!: keeps_to_rules keeps_to_resolve split: prod.splits)

lemma keeps_to_sync:
  assumes "snd ` set fs \<subseteq> S"
  shows "keeps_to S (sync repo disk branch fs)"
  unfolding keeps_to_def
proof
  fix w
  obtain st w1 where loop: "upload_loop repo disk branch initial_state fs w = (st, w1)"
    by (cases "upload_loop repo disk branch initial_state fs w")
  have "el_path ` set (tree_elements initial_state) \<subseteq> S" by (simp add: initial_state_def)
  from upload_loop_keeps_to [OF assms this loop] obtain e1 where
    s1: "el_path ` set (tree_elements st) \<subseteq> S" "snd w1 = snd w @ e1"
        "\<forall>c \<in> set e1. set (call_paths c) \<subseteq> S" by blast
  have "keeps_to S (and_then (commit_binary repo branch (tree_elements st))
          (\<lambda>_. ret \<lparr>files_uploaded = files_uploaded st, files_skipped = files_skipped st\<rparr>))"
    by (intro keeps_to_and_then keeps_to_ret keeps_to_commit_binary s1(1))
  from keeps_toD [OF this, of w1] obtain e2 where
    s2: "snd (snd (and_then (commit_binary repo branch (tree_elements st))
          (\<lambda>_. ret \<lparr>files_uploaded = files_uploaded st, files_skipped = files_skipped st\<rparr>) w1))
         = snd w1 @ e2"
        "\<forall>c \<in> set e2. set (call_paths c) \<subseteq> S" by blast
  from s1 s2 loop have "snd (snd (sync repo disk branch fs w)) = snd w @ (e1 @ e2)"
    and "\<forall>c \<in> set (e1 @ e2). set (call_paths c) \<subseteq> S" by (auto simp: sync_def)
  then show "\<exists>ext. snd (snd (sync repo disk branch fs w)) = snd w @ ext
                \<and> (\<forall>c \<in> set ext. set (call_paths c) \<subseteq> S)" by blast
qed

lemma keeps_to_initial_commit:
  "keeps_to (insert ''README.md'' (snd ` set fs))
     (initial_commit repo disk name readme_content branch fs)"
proof (cases "truthy readme_content")
  case True
  then show ?thesis
    unfolding initial_commit_def by (auto intro!: keeps_to_rules)
next
  case False
  show ?thesis
  proof (cases "find_readme fs")
    case None
    with False show ?thesis
      unfolding initial_commit_def by (auto intro!: keeps_to_rules)
  next
    case (Some t)
    obtain fp rp where t: "t = (fp, rp)" by (cases t)
    from find_readme_member [OF Some] t have "rp \<in> insert ''README.md'' (snd ` set fs)"
      by force
    with False Some t show ?thesis
      unfolding initial_commit_def
      by (auto intro!: keeps_to_rules keeps_to_read_file)
  qed
qed

lemma keeps_to_create_branch: "keeps_to S (create_branch repo branch)"
  unfolding create_branch_def by (intro keeps_to_rules)

lemma keeps_to_ensure_branch:
  "keeps_to (insert ''README.md'' (snd ` set fs))
     (ensure_branch repo disk name readme_content branch fs)"
  unfolding ensure_branch_def
  by (auto intro!: keeps_to_rules keeps_to_resolve keeps_to_initial_commit keeps_to_create_branch)

lemma ensure_branch_subset:
  assumes "ensure_branch repo disk name readme_content branch fs w = (Inr (remaining, r), w1)"
  shows "set remaining \<subseteq> set fs \<and> length remaining \<le> length fs"
  using ensure_branch_remaining [OF assms] by auto

lemma upload_collected_keeps_to:
  "\<exists>ext. snd (snd (upload_collected repo disk name readme_content branch fs w)) = snd w @ ext
         \<and> (\<forall>c \<in> set ext. set (call_paths c) \<subseteq> insert ''README.md'' (snd ` set fs))"
proof -
  let ?S = "insert ''README.md'' (snd ` set fs)"
  obtain res w1 where eb: "ensure_branch repo disk name readme_content branch fs w = (res, w1)"
    by (cases "ensure_branch repo disk name readme_content branch fs w")
  have k: "keeps_to ?S (ensure_branch repo disk name readme_content branch fs)"
    by (rule keeps_to_ensure_branch)
  from keeps_toD [OF k, of w] eb
  obtain e1 where e1: "snd w1 = snd w @ e1" "\<forall>c \<in> set e1. set (call_paths c) \<subseteq> ?S" by auto
  show ?thesis
  proof (cases res)
    case (Inl e)
    with eb e1 show ?thesis by (simp add: upload_collected_def and_then_def)
  next
    case (Inr v)
    obtain remaining r where v: "v = (remaining, r)" by (cases v)
    from ensure_branch_subset eb Inr v have "set remaining \<subseteq> set fs" by blast
    then have "snd ` set remaining \<subseteq> ?S" by auto
    then have "keeps_to ?S (sync repo disk branch remaining)" by (rule keeps_to_sync)
    from keeps_toD [OF this, of w1] obtain e2 where
      e2: "snd (snd (sync repo disk branch remaining w1)) = snd w1 @ e2"
          "\<forall>c \<in> set e2. set (call_paths c) \<subseteq> ?S" by blast
    from e1 e2 have "snd (snd (sync repo disk branch remaining w1)) = snd w @ (e1 @ e2)"
      and "\<forall>c \<in> set (e1 @ e2). set (call_paths c) \<subseteq> ?S" by auto
    moreover from eb Inr v
    have "upload_collected repo disk name readme_content branch fs w
          = sync repo disk branch remaining w1"
      by (simp add: upload_collected_def and_then_def)
    ultimately show ?thesis by (simp only:) blast
  qed
qed

lemma upload_collected_bound:
  assumes "fst (upload_collected repo disk name readme_content branch fs w) = Inr result"
  shows "files_uploaded result + files_skipped result \<le> length fs"
proof -
  from assms obtain remaining r w1 where
    eb: "ensure_branch repo disk name readme_content branch fs w = (Inr (remaining, r), w1)"
    and sy: "fst (sync repo disk branch remaining w1) = Inr result"
    by (auto simp: upload_collected_def and_then_def split: prod.splits sum.splits)
  obtain st w2 where loop: "upload_loop repo disk branch initial_state remaining w1 = (st, w2)"
    by (cases "upload_loop repo disk branch initial_state remaining w1")
  from sync_result [OF loop] sy
  have res: "result = \<lparr>files_uploaded = files_uploaded st, files_skipped = files_skipped st\<rparr>"
    by simp
  from upload_loop_counts [OF loop]
  have "files_uploaded st + files_skipped st = length remaining"
    by (simp add: initial_state_def)
  with res ensure_branch_subset [OF eb] show ?thesis by simp
qed

lemma collect_eligible:
  assumes "collect p = Inr fs" "f \<in> set fs"
  shows "\<exists>names sz. file_at (entries p) names (Some sz) \<and> sz \<le> MAX_FILE_SIZE
           \<and> list_all (\<lambda>n. \<not> starts_with ''.'' n \<and> n \<notin> set EXCLUDE_PATTERNS) names
           \<and> fst f = foldl join (project_path p) names \<and> snd f = foldl join [] names"
proof -
  from assms have "eligible (project_path p) [] (entries p) f"
    unfolding collect_def by (rule walk_sound(1))
  then obtain names sz where
    h: "file_at (entries p) names (Some sz)" "sz \<le> MAX_FILE_SIZE" "list_all admitted names"
       "fst f = foldl join (project_path p) names" "snd f = foldl join [] names"
    unfolding eligible_def by blast
  from h(3) have "list_all (\<lambda>n. \<not> starts_with ''.'' n \<and> n \<notin> set EXCLUDE_PATTERNS) names"
    by (simp add: admitted_def list_all_iff)
  with h(1,2,4,5) show ?thesis by blast
qed

text \<open>
  Claim C8. Every pair the collector returns comes from a file of the project
  directory whose size is at most the ceiling of 5 MiB, whose name neither starts with a
  dot nor is in the exclusion set, and which lies under directories whose names neither
  start with a dot nor are in the exclusion set. The run counts only collected files:
  the two counters together never exceed their number. And every file path that a call
  of the run names (in a create, an update, a lookup or a tree element) is the relative
  path of a collected file, or the \<^verbatim>\<open>README.md\<close> of the bootstrap.
\<close>

theorem only_eligible_files_are_collected:
  assumes "collect p = Inr files_to_upload"
  shows
    "(\<forall>f \<in> set files_to_upload.
        \<exists>names sz. file_at (entries p) names (Some sz) \<and> sz \<le> MAX_FILE_SIZE
          \<and> list_all (\<lambda>n. \<not> starts_with ''.'' n \<and> n \<notin> set EXCLUDE_PATTERNS) names
          \<and> fst f = foldl join (project_path p) names \<and> snd f = foldl join [] names)
     \<and> (fst (upload_files repo p disk readme_content branch w) = Inr result
          \<longrightarrow> files_uploaded result + files_skipped result \<le> length files_to_upload)
     \<and> (\<exists>ext. snd (snd (upload_files repo p disk readme_content branch w)) = snd w @ ext
           \<and> (\<forall>c \<in> set ext. \<forall>q \<in> set (call_paths c).
                 q = ''README.md'' \<or> q \<in> snd ` set files_to_upload))"
proof (intro conjI)
  show "\<forall>f \<in> set files_to_upload.
        \<exists>names sz. file_at (entries p) names (Some sz) \<and> sz \<le> MAX_FILE_SIZE
          \<and> list_all (\<lambda>n. \<not> starts_with ''.'' n \<and> n \<notin> set EXCLUDE_PATTERNS) names
          \<and> fst f = foldl join (project_path p) names \<and> snd f = foldl join [] names"
    using collect_eligible [OF assms] by blast
next
  have run: "upload_files repo p disk readme_content branch w
             = upload_collected repo disk (project_name p) readme_content branch
                 files_to_upload w"
    using assms by (simp add: upload_files_def and_then_def lift_def)
  show "fst (upload_files repo p disk readme_content branch w) = Inr result
          \<longrightarrow> files_uploaded result + files_skipped result \<le> length files_to_upload"
    using upload_collected_bound [of repo disk "project_name p" readme_content branch
        files_to_upload w result] run by simp
  from upload_collected_keeps_to [of repo disk "project_name p" readme_content branch
      files_to_upload w]
  obtain ext where
    "snd (snd (upload_collected repo disk (project_name p) readme_content branch
                 files_to_upload w)) = snd w @ ext"
    "\<forall>c \<in> set ext. set (call_paths c) \<subseteq> insert ''README.md'' (snd ` set files_to_upload)"
    by blast
  with run show "\<exists>ext. snd (snd (upload_files repo p disk readme_content branch w)) = snd w @ ext
           \<and> (\<forall>c \<in> set ext. \<forall>q \<in> set (call_paths c).
                 q = ''README.md'' \<or> q \<in> snd ` set files_to_upload)"
    by (intro exI [of _ ext]) auto
qed

text \<open>
  The scenario of the specification: of the project's entries only \<^verbatim>\<open>a.txt\<close> and
  \<^verbatim>\<open>b.bin\<close> are collected; both are uploaded, nothing is skipped, and no call names
  the archive, the hidden file or a file of an excluded directory.
\<close>

theorem only_eligible_files_are_collected_witness:
  "collect mixed_project = Inr [(''/p/a.txt'', ''a.txt''), (''/p/b.bin'', ''b.bin'')]
   \<and> (\<exists>names sz. file_at (entries mixed_project) names (Some sz) \<and> sz \<le> MAX_FILE_SIZE
         \<and> list_all (\<lambda>n. \<not> starts_with ''.'' n \<and> n \<notin> set EXCLUDE_PATTERNS) names
         \<and> ''/p/a.txt'' = foldl join (project_path mixed_project) names
         \<and> ''a.txt'' = foldl join [] names)
   \<and> fst (upload_files (sim_repo ''main'') mixed_project disk1 None ''main'' (seeded, []))
       = Inr \<lparr>files_uploaded = 2, files_skipped = 0\<rparr>
   \<and> files_uploaded \<lparr>files_uploaded = 2, files_skipped = 0\<rparr>
         + files_skipped \<lparr>files_uploaded = 2, files_skipped = 0\<rparr>
       \<le> length [(''/p/a.txt'', ''a.txt''), (''/p/b.bin'', ''b.bin'')]
   \<and> snd (snd (upload_files (sim_repo ''main'') mixed_project disk1 None ''main'' (seeded, [])))
       = [GetGitRef ''heads/main'', GetGitCommit ''c0'', GetGitTree ''t0'',
          GetContents ''a.txt'' ''main'', CreateFile ''a.txt'' ''Add a.txt'' [104, 105] ''main'',
          CreateGitBlob ''AAE='' ''base64'', GetGitRef ''heads/main'', GetGitCommit ''c'',
          GetGitTree ''t'',
          CreateGitTree [InputGitTreeElement ''b.bin'' ''100644'' ''blob'' ''bAAE='']
            (GitTree ''t''),
          CreateGitCommit ''Add/update binary files'' (GitTree ''t1'') [GitCommit ''c'' ''t''],
          EditRef (GitRef ''heads/main'' ''c'') ''c11'']"
proof -
  have collected:
    "collect mixed_project = Inr [(''/p/a.txt'', ''a.txt''), (''/p/b.bin'', ''b.bin'')]"
    by (simp add: collect_def mixed_project_def join_def EXCLUDE_PATTERNS_def MAX_FILE_SIZE_def)
  note general =
    only_eligible_files_are_collected
      [OF collected, of "sim_repo ''main''" disk1 None "''main''" "(seeded, [])"
         "\<lparr>files_uploaded = 2, files_skipped = 0\<rparr>"]
  from general have origin:
    "\<exists>names sz. file_at (entries mixed_project) names (Some sz) \<and> sz \<le> MAX_FILE_SIZE
         \<and> list_all (\<lambda>n. \<not> starts_with ''.'' n \<and> n \<notin> set EXCLUDE_PATTERNS) names
         \<and> ''/p/a.txt'' = foldl join (project_path mixed_project) names
         \<and> ''a.txt'' = foldl join [] names"
    by simp
  have run:
    "upload_files (sim_repo ''main'') mixed_project disk1 None ''main'' (seeded, [])
     = upload_collected (sim_repo ''main'') disk1 [112] None ''main''
         [(''/p/a.txt'', ''a.txt''), (''/p/b.bin'', ''b.bin'')] (seeded, [])"
    using collected by (simp add: upload_files_def and_then_def lift_def mixed_project_def)
  have result:
    "upload_collected (sim_repo ''main'') disk1 [112] None ''main''
         [(''/p/a.txt'', ''a.txt''), (''/p/b.bin'', ''b.bin'')] (seeded, [])
     = (Inr \<lparr>files_uploaded = 2, files_skipped = 0\<rparr>,
        (snd (commit_binary (sim_repo ''main'') ''main''
                [InputGitTreeElement ''b.bin'' ''100644'' ''blob'' ''bAAE='']
                (commit_file ''a.txt'' [104, 105] ''main'' seeded,
                 [GetGitRef ''heads/main'', GetGitCommit ''c0'', GetGitTree ''t0'',
                  GetContents ''a.txt'' ''main'',
                  CreateFile ''a.txt'' ''Add a.txt'' [104, 105] ''main'',
                  CreateGitBlob ''AAE='' ''base64'']))))"
    by (simp add: run_defs sim_defs fixture_defs transport_def not_found_def is_not_found_def)
  have trace:
    "snd (snd (commit_binary (sim_repo ''main'') ''main''
                [InputGitTreeElement ''b.bin'' ''100644'' ''blob'' ''bAAE='']
                (commit_file ''a.txt'' [104, 105] ''main'' seeded,
                 [GetGitRef ''heads/main'', GetGitCommit ''c0'', GetGitTree ''t0'',
                  GetContents ''a.txt'' ''main'',
                  CreateFile ''a.txt'' ''Add a.txt'' [104, 105] ''main'',
                  CreateGitBlob ''AAE='' ''base64''])))
     = [GetGitRef ''heads/main'', GetGitCommit ''c0'', GetGitTree ''t0'',
          GetContents ''a.txt'' ''main'', CreateFile ''a.txt'' ''Add a.txt'' [104, 105] ''main'',
          CreateGitBlob ''AAE='' ''base64'', GetGitRef ''heads/main'', GetGitCommit ''c'',
          GetGitTree ''t'',
          CreateGitTree [InputGitTreeElement ''b.bin'' ''100644'' ''blob'' ''bAAE='']
            (GitTree ''t''),
          CreateGitCommit ''Add/update binary files'' (GitTree ''t1'') [GitCommit ''c'' ''t''],
          EditRef (GitRef ''heads/main'' ''c'') ''c11'']"
    by (simp add: run_defs sim_defs fixture_defs)
  from collected origin run result trace show ?thesis by simp
qed

end
